theory Spec2Isabelle
  imports Main "HOL-Library.AList"
begin

section \<open>The type-comment conversion of \<^verbatim>\<open>convert_type_comments.py\<close>\<close>

text \<open>
  The embedding follows \<^verbatim>\<open>libcst/codemod/commands/convert_type_comments.py\<close>.
  Exceptions are values of \<open>exn\<close>; a function that can raise returns \<open>exn + 'a\<close>
  with \<open>Inl\<close> for the exception. Strings are lists of characters, read as code points
  below 256.
\<close>

subsection \<open>Exceptions\<close>

datatype exn =
    ArityError
  | AssertionError
  | RuntimeError string
  | IndexError
  | SyntaxError

subsection \<open>Syntax-tree nodes read by the transform\<close>

text \<open>
  Expressions of the concrete syntax tree. The transform looks at an expression only to
  ask whether it is a \<^verbatim>\<open>cst.Tuple\<close> and whether it is a
  \<^verbatim>\<open>cst.BaseAssignTargetExpression\<close>; parentheses and whitespace fields are not read
  and are left out.
\<close>

datatype BaseExpression =
    Name string
  | Attribute BaseExpression string
  | Subscript BaseExpression BaseExpression
  | Tuple "BaseElement list"
  | SimpleString string
  | Integer string
  | Call BaseExpression "BaseExpression list"
and BaseElement =
    Element (element_value: BaseExpression)
  | StarredElement (element_value: BaseExpression)

text \<open>
  Modelled from the spec: the class \<^verbatim>\<open>BaseAssignTargetExpression\<close> is declared outside
  the given sources. Section 3 of the specification names the binding expressions: a
  name, an attribute, a subscript, or a tuple of such.
\<close>

fun is_BaseAssignTargetExpression :: "BaseExpression \<Rightarrow> bool" where
  "is_BaseAssignTargetExpression (Name _) = True"
| "is_BaseAssignTargetExpression (Attribute _ _) = True"
| "is_BaseAssignTargetExpression (Subscript _ _) = True"
| "is_BaseAssignTargetExpression (Tuple _) = True"
| "is_BaseAssignTargetExpression _ = False"

datatype Annotation = Annotation (annotation_expr: BaseExpression)

datatype semicolon = MaybeSentinel_DEFAULT | Semicolon string

datatype AssignTarget = AssignTarget (at_target: BaseExpression)

datatype Assign =
  Assign (assign_targets: "AssignTarget list") (assign_value: BaseExpression)
    (assign_semicolon: semicolon)

datatype AnnAssign =
  AnnAssign (annassign_target: BaseExpression) (annassign_annotation: Annotation)
    (annassign_value: "BaseExpression option") (annassign_semicolon: semicolon)

text \<open>
  The small statements of a line. Every small statement other than the two assignment
  forms is kept as its text with its semicolon field.
\<close>

datatype BaseSmallStatement =
    Assign_stmt Assign
  | AnnAssign_stmt AnnAssign
  | Small_stmt string semicolon

text \<open>\<^verbatim>\<open>statement.with_changes(semicolon=...)\<close> on a small statement.\<close>

fun with_semicolon :: "semicolon \<Rightarrow> BaseSmallStatement \<Rightarrow> BaseSmallStatement" where
  "with_semicolon s (Assign_stmt (Assign ts v _)) = Assign_stmt (Assign ts v s)"
| "with_semicolon s (AnnAssign_stmt (AnnAssign t a v _)) = AnnAssign_stmt (AnnAssign t a v s)"
| "with_semicolon s (Small_stmt code _) = Small_stmt code s"

datatype Comment = Comment (comment_value: string)

record TrailingWhitespace =
  tw_whitespace :: string
  tw_comment :: "Comment option"
  tw_newline :: "string option"

record EmptyLine =
  el_indent :: bool
  el_whitespace :: string
  el_comment :: "Comment option"
  el_newline :: "string option"

text \<open>
  Modelled from the spec: the constructor defaults of the node classes are declared
  outside the given sources. \<^verbatim>\<open>cst.TrailingWhitespace()\<close> is the trailing whitespace
  with no whitespace, no comment and the default newline, and a node built without
  formatting fields takes the defaults (section 4.2).
\<close>

definition TrailingWhitespace_default :: TrailingWhitespace where
  "TrailingWhitespace_default =
     \<lparr>tw_whitespace = [], tw_comment = None, tw_newline = None\<rparr>"

record SimpleStatementLine =
  ssl_body :: "BaseSmallStatement list"
  ssl_leading_lines :: "EmptyLine list"
  ssl_trailing_whitespace :: TrailingWhitespace

datatype AsName = AsName (asname_name: BaseExpression)

record WithItem =
  item :: BaseExpression
  asname :: "AsName option"

record Param =
  param_name :: string
  param_annotation :: "Annotation option"
  param_default :: "BaseExpression option"
  param_star :: string

text \<open>
  Statements and suites. A compound statement other than \<^verbatim>\<open>For\<close>, \<^verbatim>\<open>With\<close> and
  \<^verbatim>\<open>FunctionDef\<close> is kept as its header text, its body and its leading lines.
\<close>

datatype statement =
    SimpleStatementLine_stmt SimpleStatementLine
  | For_stmt For
  | With_stmt With
  | FunctionDef_stmt FunctionDef
  | Compound_stmt string BaseSuite "EmptyLine list"
and For =
  For (for_target: BaseExpression) (for_iter: BaseExpression) (for_body: BaseSuite)
    (for_leading_lines: "EmptyLine list")
and With =
  With (with_items: "WithItem list") (with_body: BaseSuite)
    (with_leading_lines: "EmptyLine list")
and FunctionDef =
  FunctionDef (fd_name: string) (fd_params: "Param list") (fd_returns: "Annotation option")
    (fd_body: BaseSuite) (fd_leading_lines: "EmptyLine list")
and BaseSuite =
    IndentedBlock_suite IndentedBlock
  | SimpleStatementSuite "BaseSmallStatement list" TrailingWhitespace
and IndentedBlock =
  IndentedBlock (ib_header: TrailingWhitespace) (ib_body: "statement list")

subsection \<open>The \<^verbatim>\<open>ast\<close> expressions of a decoded type comment\<close>

text \<open>
  The standard library's \<^verbatim>\<open>ast\<close> module decodes the payload of a type comment. The
  transform distinguishes a tuple (\<^verbatim>\<open>ast.Tuple\<close>) and the constant \<^verbatim>\<open>Ellipsis\<close>
  from every other expression, which it only hands to \<^verbatim>\<open>ast.unparse\<close>.
\<close>

datatype ast_constant = Ellipsis | Constant_value string

datatype ast_expr =
    Tuple_ast (elts: "ast_expr list")
  | Constant_ast ast_constant
  | Name_ast string
  | Subscript_ast ast_expr ast_expr

record ast_arg =
  arg :: string
  arg_type_comment :: "string option"

record ast_arguments =
  posonlyargs :: "ast_arg list"
  args :: "ast_arg list"
  vararg :: "ast_arg option"
  kwonlyargs :: "ast_arg list"
  kwarg :: "ast_arg option"

text \<open>
  The attributes of an \<^verbatim>\<open>ast\<close> statement that the transform reads: its type comment
  and, for a function definition, its arguments.
\<close>

record ast_stmt =
  stmt_type_comment :: "string option"
  stmt_args :: ast_arguments

record ast_FunctionType =
  argtypes :: "ast_expr list"
  functype_returns :: ast_expr

subsection \<open>What the transform calls outside the file\<close>

text \<open>
  The functions of the standard library and of the code generator that the file calls
  are parameters of the embedding:
  \<^item> \<open>builtins_dir\<close> is \<^verbatim>\<open>dir(builtins)\<close>;
  \<^item> \<open>ast_unparse\<close> is \<^verbatim>\<open>ast.unparse\<close>;
  \<^item> \<open>ast_parse_eval s\<close> is \<^verbatim>\<open>ast.parse(s, "<type_comment>", "eval").body\<close>,
    \<open>None\<close> when it raises \<^verbatim>\<open>SyntaxError\<close>;
  \<^item> \<open>ast_parse_func_type s\<close> is \<^verbatim>\<open>ast.parse(s, "<func_type_comment>", "func_type")\<close>,
    \<open>None\<close> when it raises \<^verbatim>\<open>SyntaxError\<close>;
  \<^item> \<open>code_for_node\<close> is \<^verbatim>\<open>_empty_module().code_for_node\<close>;
  \<^item> \<open>ast_parse code tc\<close> is \<^verbatim>\<open>ast.parse(code, type_comments=tc).body\<close>,
    \<open>None\<close> when it raises \<^verbatim>\<open>SyntaxError\<close>.
\<close>

record env =
  builtins_dir :: "string list"
  ast_unparse :: "ast_expr \<Rightarrow> string"
  ast_parse_eval :: "string \<Rightarrow> ast_expr option"
  ast_parse_func_type :: "string \<Rightarrow> ast_FunctionType option"
  code_for_node :: "statement \<Rightarrow> string"
  ast_parse :: "string \<Rightarrow> bool \<Rightarrow> ast_stmt list option"

subsection \<open>Decoding type comments\<close>

text \<open>\<^verbatim>\<open>_ast_for_statement\<close>: \<^verbatim>\<open>.body[-1]\<close> raises on an empty body.\<close>

definition ast_for_statement :: "env \<Rightarrow> statement \<Rightarrow> exn + ast_stmt" where
  "ast_for_statement env node =
     (let code = code_for_node env node in
      case ast_parse env code True of
        Some body \<Rightarrow> (if body = [] then Inl IndexError else Inr (last body))
      | None \<Rightarrow>
          (case ast_parse env code False of
             Some body \<Rightarrow> (if body = [] then Inl IndexError else Inr (last body))
           | None \<Rightarrow> Inl SyntaxError))"

definition parse_type_comment :: "env \<Rightarrow> string option \<Rightarrow> ast_expr option" where
  "parse_type_comment env type_comment =
     (case type_comment of
        None \<Rightarrow> None
      | Some s \<Rightarrow> ast_parse_eval env s)"

definition annotation_for_statement :: "env \<Rightarrow> statement \<Rightarrow> exn + ast_expr option" where
  "annotation_for_statement env node =
     (case ast_for_statement env node of
        Inl e \<Rightarrow> Inl e
      | Inr node_ast \<Rightarrow> Inr (parse_type_comment env (stmt_type_comment node_ast)))"

definition parse_func_type_comment ::
    "env \<Rightarrow> string option \<Rightarrow> exn + ast_FunctionType option" where
  "parse_func_type_comment env func_type_comment =
     (case func_type_comment of
        None \<Rightarrow> Inr None
      | Some s \<Rightarrow>
          (case ast_parse_func_type env s of
             None \<Rightarrow> Inl SyntaxError
           | Some t \<Rightarrow> Inr (Some t)))"

subsection \<open>Annotations from raw text\<close>

definition is_builtin :: "env \<Rightarrow> string \<Rightarrow> bool" where
  "is_builtin env annotation = (annotation \<in> set (builtins_dir env))"

text \<open>\<^verbatim>\<open>_convert_annotation\<close>; \<open>CHR 0x22\<close> is the double quote.\<close>

definition convert_annotation :: "env \<Rightarrow> string \<Rightarrow> Annotation" where
  "convert_annotation env raw =
     (if is_builtin env raw then Annotation (Name raw)
      else Annotation (SimpleString ([CHR 0x22] @ raw @ [CHR 0x22])))"

text \<open>
  The rule of section 4.4 of the specification, in its words: an annotation value is
  wrapped as a quoted string literal, except when the raw text is one of the fixed set
  of built-in identifiers, in which case it is emitted unquoted.
\<close>

definition quoted_or_builtin :: "string list \<Rightarrow> string \<Rightarrow> Annotation" where
  "quoted_or_builtin names raw =
     (if raw \<in> set names then Annotation (Name raw)
      else Annotation (SimpleString (CHR 0x22 # raw @ [CHR 0x22])))"

subsection \<open>Recognising a type comment\<close>

text \<open>
  \<^verbatim>\<open>str.isspace\<close> on the code points below 256: tab, line feed, vertical tab, form
  feed, carriage return, the four separators 28 to 31, the space, and the code points
  133 and 160.
\<close>

definition py_isspace :: "char \<Rightarrow> bool" where
  "py_isspace c = ((of_char c :: nat) \<in> {9, 10, 11, 12, 13, 28, 29, 30, 31, 32, 133, 160})"

definition py_strip :: "string \<Rightarrow> string" where
  "py_strip s = rev (dropWhile py_isspace (rev (dropWhile py_isspace s)))"

definition py_startswith :: "string \<Rightarrow> string \<Rightarrow> bool" where
  "py_startswith s p = (take (length p) s = p)"

definition py_removeprefix :: "string \<Rightarrow> string \<Rightarrow> string" where
  "py_removeprefix s p = (if py_startswith s p then drop (length p) s else s)"

text \<open>
  \<^verbatim>\<open>str.split()\<close> with no argument: the maximal runs of characters that are not
  whitespace. The second argument is the run being read.
\<close>

fun py_split_from :: "string \<Rightarrow> string \<Rightarrow> string list" where
  "py_split_from [] cur = (if cur = [] then [] else [cur])"
| "py_split_from (c # cs) cur =
     (if py_isspace c
      then (if cur = [] then py_split_from cs [] else cur # py_split_from cs [])
      else py_split_from cs (cur @ [c]))"

definition py_split :: "string \<Rightarrow> string list" where
  "py_split s = py_split_from s []"

definition is_type_comment :: "Comment option \<Rightarrow> bool" where
  "is_type_comment comment =
     (case comment of
        None \<Rightarrow> False
      | Some c \<Rightarrow>
          (let v = py_strip (drop 1 (comment_value c)) in
           if \<not> py_startswith v ''type:'' then False
           else
             (let suffix = py_split (py_strip (py_removeprefix v ''type:'')) in
              if length suffix > 0 \<and> hd suffix = ''ignore'' then False
              else True)))"

subsection \<open>\<^verbatim>\<open>AnnotationSpreader\<close>\<close>

datatype UnpackedBindings =
    Binding BaseExpression
  | Bindings "UnpackedBindings list"

datatype UnpackedAnnotations =
    Str string
  | Annotations "UnpackedAnnotations list"

type_synonym TargetAnnotationPair = "BaseExpression \<times> string"

text \<open>\<^verbatim>\<open>unpack_annotation\<close>; \<open>unparse\<close> stands for \<^verbatim>\<open>ast.unparse\<close>.\<close>

fun unpack_annotation :: "(ast_expr \<Rightarrow> string) \<Rightarrow> ast_expr \<Rightarrow> UnpackedAnnotations" where
  "unpack_annotation unparse (Tuple_ast es) =
     Annotations (map (unpack_annotation unparse) es)"
| "unpack_annotation unparse expression = Str (unparse expression)"

text \<open>
  \<^verbatim>\<open>unpack_target\<close>; \<open>unpack_element\<close> is the body of its comprehension, the read
  of \<^verbatim>\<open>element.value\<close> followed by the recursive call.
\<close>

fun unpack_target :: "BaseExpression \<Rightarrow> UnpackedBindings"
and unpack_element :: "BaseElement \<Rightarrow> UnpackedBindings" where
  "unpack_target (Tuple elements) = Bindings (map unpack_element elements)"
| "unpack_target target = Binding target"
| "unpack_element (Element v) = unpack_target v"
| "unpack_element (StarredElement v) = unpack_target v"

text \<open>
  \<^verbatim>\<open>annotated_bindings\<close>. The loop over \<^verbatim>\<open>zip(bindings, annotations)\<close> is
  \<open>annotated_bindings_zip\<close>; it stops at the first pair that raises.
\<close>

fun annotated_bindings ::
    "UnpackedBindings \<Rightarrow> UnpackedAnnotations \<Rightarrow> exn + TargetAnnotationPair list"
and annotated_bindings_zip ::
    "UnpackedBindings list \<Rightarrow> UnpackedAnnotations list \<Rightarrow> exn + TargetAnnotationPair list"
where
  "annotated_bindings bindings (Annotations annotations) =
     (case bindings of
        Bindings bs \<Rightarrow>
          if length bs = length annotations
          then annotated_bindings_zip bs annotations
          else Inl ArityError
      | Binding _ \<Rightarrow> Inl ArityError)"
| "annotated_bindings (Bindings _) (Str _) = Inl ArityError"
| "annotated_bindings (Binding b) (Str annotation) =
     (if is_BaseAssignTargetExpression b then Inr [(b, annotation)]
      else Inl AssertionError)"
| "annotated_bindings_zip (binding # bs) (annotation # as) =
     (case annotated_bindings binding annotation of
        Inl e \<Rightarrow> Inl e
      | Inr out1 \<Rightarrow>
          (case annotated_bindings_zip bs as of
             Inl e \<Rightarrow> Inl e
           | Inr out2 \<Rightarrow> Inr (out1 @ out2)))"
| "annotated_bindings_zip _ _ = Inr []"

text \<open>
  The shape zipping of section 4.4 of the specification, in its words. Two shapes match
  when a leaf meets a leaf, or a sequence meets a sequence of equal length whose
  corresponding elements match; any length mismatch, and a sequence paired with a
  non-sequence or the reverse, is a mismatch.
\<close>

fun shapes_match :: "UnpackedBindings \<Rightarrow> UnpackedAnnotations \<Rightarrow> bool"
and shapes_match_list :: "UnpackedBindings list \<Rightarrow> UnpackedAnnotations list \<Rightarrow> bool" where
  "shapes_match (Binding _) (Str _) = True"
| "shapes_match (Bindings bs) (Annotations as) = shapes_match_list bs as"
| "shapes_match (Binding _) (Annotations _) = False"
| "shapes_match (Bindings _) (Str _) = False"
| "shapes_match_list [] [] = True"
| "shapes_match_list (b # bs) (a # as) = (shapes_match b a \<and> shapes_match_list bs as)"
| "shapes_match_list [] (_ # _) = False"
| "shapes_match_list (_ # _) [] = False"


text \<open>
  What the zipping produces, in the words of the specification: one pair of binding and
  type for a leaf against a leaf, and for two sequences the pairs of their corresponding
  elements, in order.
\<close>

fun zipped :: "UnpackedBindings \<Rightarrow> UnpackedAnnotations \<Rightarrow> TargetAnnotationPair list"
and zipped_list ::
    "UnpackedBindings list \<Rightarrow> UnpackedAnnotations list \<Rightarrow> TargetAnnotationPair list" where
  "zipped (Binding b) (Str a) = [(b, a)]"
| "zipped (Bindings bs) (Annotations as) = zipped_list bs as"
| "zipped (Binding _) (Annotations _) = []"
| "zipped (Bindings _) (Str _) = []"
| "zipped_list (b # bs) (a # as) = zipped b a @ zipped_list bs as"
| "zipped_list [] _ = []"
| "zipped_list (_ # _) [] = []"


text \<open>
  Every leaf of a binding shape is an assignment target, as it is for the targets of a
  parsed assignment, loop or context manager; then the assertion of
  \<^verbatim>\<open>annotated_bindings\<close> holds at every leaf.
\<close>

fun all_targets :: "UnpackedBindings \<Rightarrow> bool" where
  "all_targets (Binding b) = is_BaseAssignTargetExpression b"
| "all_targets (Bindings bs) = (\<forall>b \<in> set bs. all_targets b)"

definition type_declaration :: "env \<Rightarrow> BaseExpression \<Rightarrow> string \<Rightarrow> AnnAssign" where
  "type_declaration env binding raw_annotation =
     AnnAssign binding (convert_annotation env raw_annotation) None MaybeSentinel_DEFAULT"

text \<open>\<^verbatim>\<open>cst.SimpleStatementLine(body=..., leading_lines=...)\<close>, the other fields default.\<close>

definition SimpleStatementLine_new ::
    "BaseSmallStatement list \<Rightarrow> EmptyLine list \<Rightarrow> SimpleStatementLine" where
  "SimpleStatementLine_new body leading_lines =
     \<lparr>ssl_body = body, ssl_leading_lines = leading_lines,
      ssl_trailing_whitespace = TrailingWhitespace_default\<rparr>"

definition type_declaration_statements ::
    "env \<Rightarrow> UnpackedBindings \<Rightarrow> UnpackedAnnotations \<Rightarrow> EmptyLine list
       \<Rightarrow> exn + SimpleStatementLine list" where
  "type_declaration_statements env bindings annotations leading_lines =
     (case annotated_bindings bindings annotations of
        Inl e \<Rightarrow> Inl e
      | Inr pairs \<Rightarrow>
          Inr (map (\<lambda>(i, (binding, raw_annotation)).
                      SimpleStatementLine_new
                        [AnnAssign_stmt (type_declaration env binding raw_annotation)]
                        (if i = 0 then leading_lines else []))
                 (enumerate 0 pairs)))"

subsection \<open>\<^verbatim>\<open>convert_Assign\<close>\<close>

datatype converted =
    FailedToApplyAnnotation
  | Converted_AnnAssign AnnAssign
  | Converted_list "BaseSmallStatement list"

text \<open>
  The comprehension over \<^verbatim>\<open>node.targets\<close> inside the \<^verbatim>\<open>try\<close> block: one list of
  pairs per target, stopping at the first target that raises.
\<close>

fun annotated_targets ::
    "AssignTarget list \<Rightarrow> UnpackedAnnotations \<Rightarrow> exn + TargetAnnotationPair list list" where
  "annotated_targets [] annotations = Inr []"
| "annotated_targets (t # ts) annotations =
     (case annotated_bindings (unpack_target (at_target t)) annotations of
        Inl e \<Rightarrow> Inl e
      | Inr pairs \<Rightarrow>
          (case annotated_targets ts annotations of
             Inl e \<Rightarrow> Inl e
           | Inr rest \<Rightarrow> Inr (pairs # rest)))"

text \<open>
  Only \<^verbatim>\<open>_ArityError\<close> is caught; any other exception leaves the function. The test
  \<^verbatim>\<open>len(annotated_targets) == 1 and len(annotated_targets[0]) == 1\<close> is the pattern
  \<open>[[(binding, raw_annotation)]]\<close>.
\<close>

definition convert_Assign :: "env \<Rightarrow> Assign \<Rightarrow> ast_expr \<Rightarrow> exn + converted" where
  "convert_Assign env node annotation =
     (case annotated_targets (assign_targets node)
             (unpack_annotation (ast_unparse env) annotation) of
        Inl ArityError \<Rightarrow> Inr FailedToApplyAnnotation
      | Inl e \<Rightarrow> Inl e
      | Inr [[(binding, raw_annotation)]] \<Rightarrow>
          Inr (Converted_AnnAssign
                 (AnnAssign binding (convert_annotation env raw_annotation)
                    (Some (assign_value node)) (assign_semicolon node)))
      | Inr ats \<Rightarrow>
          Inr (Converted_list
                 (map (\<lambda>(binding, raw_annotation).
                         AnnAssign_stmt (type_declaration env binding raw_annotation))
                    (concat ats)
                  @ [Assign_stmt node])))"

subsection \<open>\<^verbatim>\<open>FunctionTypeInfo\<close>\<close>

text \<open>
  A dictionary is an association list in insertion order; storing under a key that is
  present replaces its value in place, as \<^verbatim>\<open>dict\<close> does.
\<close>

definition dict_of :: "('k \<times> 'v) list \<Rightarrow> ('k \<times> 'v) list" where
  "dict_of kvs = foldl (\<lambda>d (k, v). AList.update k v d) [] kvs"

record FunctionTypeInfo =
  arguments :: "(string \<times> string option) list"
  returns :: "string option"

definition is_empty :: "FunctionTypeInfo \<Rightarrow> bool" where
  "is_empty info = (returns info = None \<and> arguments info = [])"

text \<open>
  \<^verbatim>\<open>argtypes[0]\<close> is the constant \<^verbatim>\<open>Ellipsis\<close>, for a list of one argument type.
\<close>

fun is_ellipsis_argtypes :: "ast_expr list \<Rightarrow> bool" where
  "is_ellipsis_argtypes [Constant_ast Ellipsis] = True"
| "is_ellipsis_argtypes _ = False"

definition function_args :: "ast_arguments \<Rightarrow> ast_arg list" where
  "function_args a =
     posonlyargs a @ args a
     @ (case vararg a of None \<Rightarrow> [] | Some v \<Rightarrow> [v])
     @ kwonlyargs a
     @ (case kwarg a of None \<Rightarrow> [] | Some k \<Rightarrow> [k])"

text \<open>\<^verbatim>\<open>arg.type_comment or ast.unparse(from_func_type)\<close>: the empty string is falsy.\<close>

definition type_comment_or :: "string option \<Rightarrow> string \<Rightarrow> string" where
  "type_comment_or type_comment other =
     (case type_comment of
        None \<Rightarrow> other
      | Some s \<Rightarrow> (if s = [] then other else s))"

definition from_cst :: "env \<Rightarrow> FunctionDef \<Rightarrow> exn + FunctionTypeInfo" where
  "from_cst env node_cst =
     (case ast_for_statement env (FunctionDef_stmt node_cst) of
        Inl e \<Rightarrow> Inl e
      | Inr node_ast \<Rightarrow>
          (let as = function_args (stmt_args node_ast) in
           case parse_func_type_comment env (stmt_type_comment node_ast) of
             Inl SyntaxError \<Rightarrow> Inr \<lparr>arguments = [], returns = None\<rparr>
           | Inl e \<Rightarrow> Inl e
           | Inr None \<Rightarrow>
               Inr \<lparr>arguments =
                      dict_of (map (\<lambda>a. (arg a, arg_type_comment a))
                                 (filter (\<lambda>a. arg_type_comment a \<noteq> None) as)),
                    returns = None\<rparr>
           | Inr (Some func_type_annotation) \<Rightarrow>
               (let ats = argtypes func_type_annotation;
                    rets = ast_unparse env (functype_returns func_type_annotation)
                in
                if is_ellipsis_argtypes ats
                then Inr \<lparr>arguments = dict_of (map (\<lambda>a. (arg a, arg_type_comment a)) as),
                          returns = Some rets\<rparr>
                else if length ats = length as
                then Inr \<lparr>arguments =
                            dict_of (map (\<lambda>(a, from_func_type).
                                            (arg a,
                                             Some (type_comment_or (arg_type_comment a)
                                                     (ast_unparse env from_func_type))))
                                       (zip as ats)),
                          returns = Some rets\<rparr>
                else Inr \<lparr>arguments = [], returns = None\<rparr>)))"

subsection \<open>\<^verbatim>\<open>ConvertTypeComments\<close>: the statement hooks\<close>

text \<open>
  What a leave hook returns: the node, a \<^verbatim>\<open>FlattenSentinel\<close> of statements that take
  the node's place, or \<^verbatim>\<open>RemovalSentinel.REMOVE\<close>.
\<close>

datatype 'a leave_result =
    Node 'a
  | FlattenSentinel "statement list"
  | RemovalSentinel_REMOVE

definition strip_TrailingWhitespace :: "TrailingWhitespace \<Rightarrow> TrailingWhitespace" where
  "strip_TrailingWhitespace node = node\<lparr>tw_whitespace := [], tw_comment := None\<rparr>"

definition leave_SimpleStatementLine ::
    "env \<Rightarrow> SimpleStatementLine \<Rightarrow> SimpleStatementLine
       \<Rightarrow> exn + SimpleStatementLine leave_result" where
  "leave_SimpleStatementLine env original_node updated_node =
     (if ssl_body updated_node = [] then Inl IndexError
      else
        case last (ssl_body updated_node) of
          Assign_stmt assign \<Rightarrow>
            (case annotation_for_statement env (SimpleStatementLine_stmt original_node) of
               Inl e \<Rightarrow> Inl e
             | Inr None \<Rightarrow> Inr (Node updated_node)
             | Inr (Some annotation) \<Rightarrow>
                 (case convert_Assign env assign annotation of
                    Inl e \<Rightarrow> Inl e
                  | Inr FailedToApplyAnnotation \<Rightarrow> Inr (Node updated_node)
                  | Inr (Converted_AnnAssign c) \<Rightarrow>
                      Inr (Node (updated_node
                        \<lparr>ssl_body := butlast (ssl_body updated_node) @ [AnnAssign_stmt c],
                         ssl_trailing_whitespace :=
                           strip_TrailingWhitespace (ssl_trailing_whitespace updated_node)\<rparr>))
                  | Inr (Converted_list c) \<Rightarrow>
                      (let new_statements =
                             map (with_semicolon MaybeSentinel_DEFAULT)
                               (butlast (ssl_body updated_node)) @ c
                       in
                       if length new_statements < 2
                       then Inl (RuntimeError ''Unreachable code.'')
                       else
                         Inr (FlattenSentinel
                           (SimpleStatementLine_stmt (updated_node
                              \<lparr>ssl_body := [hd new_statements],
                               ssl_trailing_whitespace :=
                                 strip_TrailingWhitespace
                                   (ssl_trailing_whitespace updated_node)\<rparr>)
                            # map (\<lambda>statement.
                                     SimpleStatementLine_stmt
                                       (SimpleStatementLine_new [statement] []))
                                (tl new_statements))))))
        | _ \<Rightarrow> Inr (Node updated_node))"

text \<open>
  The flattened result shared by \<^verbatim>\<open>leave_For\<close> and \<^verbatim>\<open>leave_With\<close>: the header of
  the indented block loses its comment.
\<close>

definition strip_header :: "IndentedBlock \<Rightarrow> BaseSuite" where
  "strip_header body =
     IndentedBlock_suite
       (IndentedBlock (strip_TrailingWhitespace (ib_header body)) (ib_body body))"

definition leave_For :: "env \<Rightarrow> For \<Rightarrow> For \<Rightarrow> exn + For leave_result" where
  "leave_For env original_node updated_node =
     (case for_body updated_node of
        SimpleStatementSuite _ _ \<Rightarrow> Inr (Node updated_node)
      | IndentedBlock_suite body \<Rightarrow>
          (case annotation_for_statement env (For_stmt original_node) of
             Inl e \<Rightarrow> Inl e
           | Inr None \<Rightarrow> Inr (Node updated_node)
           | Inr (Some annotation) \<Rightarrow>
               (case type_declaration_statements env
                       (unpack_target (for_target updated_node))
                       (unpack_annotation (ast_unparse env) annotation)
                       (for_leading_lines updated_node) of
                  Inl ArityError \<Rightarrow> Inr (Node updated_node)
                | Inl e \<Rightarrow> Inl e
                | Inr type_declarations \<Rightarrow>
                    Inr (FlattenSentinel
                      (map SimpleStatementLine_stmt type_declarations
                       @ [For_stmt (For (for_target updated_node) (for_iter updated_node)
                                     (strip_header body) [])])))))"

text \<open>
  The comprehension \<^verbatim>\<open>[item.asname.name for item in items if item.asname is not None]\<close>
  of \<^verbatim>\<open>leave_With\<close>.
\<close>

fun with_targets :: "WithItem list \<Rightarrow> BaseExpression list" where
  "with_targets [] = []"
| "with_targets (i # is) =
     (case asname i of
        None \<Rightarrow> with_targets is
      | Some a \<Rightarrow> asname_name a # with_targets is)"

definition leave_With :: "env \<Rightarrow> With \<Rightarrow> With \<Rightarrow> exn + With leave_result" where
  "leave_With env original_node updated_node =
     (case with_body updated_node of
        SimpleStatementSuite _ _ \<Rightarrow> Inr (Node updated_node)
      | IndentedBlock_suite body \<Rightarrow>
          (case annotation_for_statement env (With_stmt original_node) of
             Inl e \<Rightarrow> Inl e
           | Inr None \<Rightarrow> Inr (Node updated_node)
           | Inr (Some annotation) \<Rightarrow>
               (let targets = with_targets (with_items updated_node) in
                if length targets \<noteq> 1 then Inr (Node updated_node)
                else
                  case type_declaration_statements env
                         (unpack_target (hd targets))
                         (unpack_annotation (ast_unparse env) annotation)
                         (with_leading_lines updated_node) of
                    Inl ArityError \<Rightarrow> Inr (Node updated_node)
                  | Inl e \<Rightarrow> Inl e
                  | Inr type_declarations \<Rightarrow>
                      Inr (FlattenSentinel
                        (map SimpleStatementLine_stmt type_declarations
                         @ [With_stmt (With (with_items updated_node)
                                         (strip_header body) [])])))))"

subsection \<open>\<^verbatim>\<open>ConvertTypeComments\<close>: the function-definition hooks\<close>

text \<open>
  The fields of the transform. A Python list used as a stack grows at its end:
  \<^verbatim>\<open>append\<close> is \<open>xs @ [x]\<close>, \<^verbatim>\<open>xs[-1]\<close> is \<open>last xs\<close> and \<^verbatim>\<open>pop\<close> leaves
  \<open>butlast xs\<close>; the last two raise \<^verbatim>\<open>IndexError\<close> on the empty list.
\<close>

record ConvertTypeComments =
  function_type_info_stack :: "FunctionTypeInfo list"
  function_body_stack :: "BaseSuite list"
  aggressively_strip_type_comments :: bool

definition init :: ConvertTypeComments where
  "init = \<lparr>function_type_info_stack = [], function_body_stack = [],
            aggressively_strip_type_comments = False\<rparr>"

definition visit_FunctionDef ::
    "env \<Rightarrow> ConvertTypeComments \<Rightarrow> FunctionDef \<Rightarrow> exn + ConvertTypeComments" where
  "visit_FunctionDef env self node =
     (case from_cst env node of
        Inl e \<Rightarrow> Inl e
      | Inr function_type_info \<Rightarrow>
          Inr \<lparr>function_type_info_stack =
                  function_type_info_stack self @ [function_type_info],
                function_body_stack = function_body_stack self @ [fd_body node],
                aggressively_strip_type_comments = (\<not> is_empty function_type_info)\<rparr>)"

definition leave_TrailingWhitespace ::
    "ConvertTypeComments \<Rightarrow> TrailingWhitespace \<Rightarrow> TrailingWhitespace
       \<Rightarrow> TrailingWhitespace leave_result" where
  "leave_TrailingWhitespace self original_node updated_node =
     (if aggressively_strip_type_comments self \<and> is_type_comment (tw_comment updated_node)
      then Node TrailingWhitespace_default
      else Node updated_node)"

definition leave_EmptyLine ::
    "ConvertTypeComments \<Rightarrow> EmptyLine \<Rightarrow> EmptyLine \<Rightarrow> EmptyLine leave_result" where
  "leave_EmptyLine self original_node updated_node =
     (if aggressively_strip_type_comments self \<and> is_type_comment (el_comment updated_node)
      then RemovalSentinel_REMOVE
      else Node updated_node)"

definition visit_FunctionDef_body ::
    "ConvertTypeComments \<Rightarrow> FunctionDef \<Rightarrow> ConvertTypeComments" where
  "visit_FunctionDef_body self node = self\<lparr>aggressively_strip_type_comments := False\<rparr>"

text \<open>
  \<^verbatim>\<open>hasattr(first_statement, "leading_lines")\<close> and the read and the replacement of
  that field. Every statement class of the model has the field.
\<close>

fun leading_lines_of :: "statement \<Rightarrow> EmptyLine list option" where
  "leading_lines_of (SimpleStatementLine_stmt n) = Some (ssl_leading_lines n)"
| "leading_lines_of (For_stmt n) = Some (for_leading_lines n)"
| "leading_lines_of (With_stmt n) = Some (with_leading_lines n)"
| "leading_lines_of (FunctionDef_stmt n) = Some (fd_leading_lines n)"
| "leading_lines_of (Compound_stmt _ _ ls) = Some ls"

fun with_leading_lines_changed :: "EmptyLine list \<Rightarrow> statement \<Rightarrow> statement" where
  "with_leading_lines_changed ls (SimpleStatementLine_stmt n) =
     SimpleStatementLine_stmt (n\<lparr>ssl_leading_lines := ls\<rparr>)"
| "with_leading_lines_changed ls (For_stmt (For t i b _)) = For_stmt (For t i b ls)"
| "with_leading_lines_changed ls (With_stmt (With is b _)) = With_stmt (With is b ls)"
| "with_leading_lines_changed ls (FunctionDef_stmt (FunctionDef n ps r b _)) =
     FunctionDef_stmt (FunctionDef n ps r b ls)"
| "with_leading_lines_changed ls (Compound_stmt h b _) = Compound_stmt h b ls"

text \<open>
  \<^verbatim>\<open>leave_IndentedBlock\<close>. The test \<^verbatim>\<open>original_node is not self.function_body_stack[-1]\<close>
  compares objects; here it compares the trees. While a function body is on top of the
  stack, every other indented block that is left is a proper part of that body, and a
  proper part of a tree differs from the tree.
\<close>

definition leave_IndentedBlock ::
    "ConvertTypeComments \<Rightarrow> IndentedBlock \<Rightarrow> IndentedBlock \<Rightarrow> exn + IndentedBlock" where
  "leave_IndentedBlock self original_node updated_node =
     (if length (function_body_stack self) = 0 then Inr updated_node
      else if IndentedBlock_suite original_node \<noteq> last (function_body_stack self)
      then Inr updated_node
      else if function_type_info_stack self = [] then Inl IndexError
      else if is_empty (last (function_type_info_stack self)) then Inr updated_node
      else
        (let updated_node =
               (if is_type_comment (tw_comment (ib_header updated_node))
                then IndentedBlock TrailingWhitespace_default (ib_body updated_node)
                else updated_node)
         in
         case ib_body updated_node of
           [] \<Rightarrow> Inl IndexError
         | first_statement # rest \<Rightarrow>
             (case leading_lines_of first_statement of
                None \<Rightarrow> Inr updated_node
              | Some leading_lines \<Rightarrow>
                  Inr (IndentedBlock (ib_header updated_node)
                         (with_leading_lines_changed
                            (filter (\<lambda>line. \<not> is_type_comment (el_comment line))
                               leading_lines)
                            first_statement
                          # rest)))))"

definition leave_Param ::
    "env \<Rightarrow> ConvertTypeComments \<Rightarrow> Param \<Rightarrow> Param \<Rightarrow> exn + Param" where
  "leave_Param env self original_node updated_node =
     (if param_annotation updated_node \<noteq> None then Inr updated_node
      else if function_type_info_stack self = [] then Inl IndexError
      else
        (let function_type_info = last (function_type_info_stack self) in
         case map_of (arguments function_type_info) (param_name updated_node) of
           Some (Some raw_annotation) \<Rightarrow>
             Inr (updated_node
                    \<lparr>param_annotation := Some (convert_annotation env raw_annotation)\<rparr>)
         | _ \<Rightarrow> Inr updated_node))"

text \<open>\<^verbatim>\<open>leave_FunctionDef\<close> returns the node and the transform with both stacks popped.\<close>

definition leave_FunctionDef ::
    "env \<Rightarrow> ConvertTypeComments \<Rightarrow> FunctionDef \<Rightarrow> FunctionDef
       \<Rightarrow> exn + FunctionDef \<times> ConvertTypeComments" where
  "leave_FunctionDef env self original_node updated_node =
     (if function_body_stack self = [] then Inl IndexError
      else if function_type_info_stack self = [] then Inl IndexError
      else
        (let function_type_info = last (function_type_info_stack self);
             self' = self\<lparr>function_body_stack := butlast (function_body_stack self),
                          function_type_info_stack :=
                            butlast (function_type_info_stack self)\<rparr>
         in
         case (fd_returns updated_node, returns function_type_info) of
           (None, Some r) \<Rightarrow>
             Inr (FunctionDef (fd_name updated_node) (fd_params updated_node)
                    (Some (convert_annotation env r)) (fd_body updated_node)
                    (fd_leading_lines updated_node),
                  self')
         | _ \<Rightarrow> Inr (updated_node, self')))"

section \<open>Construction of a parameter collection\<close>

datatype CSTValidationError = CSTValidationError string

record Parameters =
  params :: "Param list"
  default_params :: "Param list"
  star_arg :: "Param option"
  kwonly_params :: "Param list"
  star_kwarg :: "Param option"

text \<open>
  Modelled from the spec: the validation that runs when a \<^verbatim>\<open>Parameters\<close> node is built
  is in the node classes, outside the given sources. Section 3: plain positional
  parameters must not carry a default value, and defaulted positional parameters must
  carry one; section 4.1: construction fails at once with a descriptive error that
  identifies the violated invariant. The two descriptions are the ones that
  \<^verbatim>\<open>LambdaCreationTest.test_invalid\<close> expects. Only this invariant of the collection is
  modelled.
\<close>

definition Parameters_validate_defaults :: "Parameters \<Rightarrow> CSTValidationError + unit" where
  "Parameters_validate_defaults ps =
     (if list_ex (\<lambda>p. param_default p \<noteq> None) (params ps)
      then Inl (CSTValidationError ''Cannot have defaults for params'')
      else if list_ex (\<lambda>p. param_default p = None) (default_params ps)
      then Inl (CSTValidationError ''Must have defaults for default_params'')
      else Inr ())"

section \<open>Inputs for the examples\<close>

text \<open>
  The examples below need values for the parameters of the embedding. \<open>unparse_example\<close>
  stands for \<^verbatim>\<open>ast.unparse\<close> on the expressions of the examples: a name and a constant
  print as their text, a subscript as \<^verbatim>\<open>value[slice]\<close>, and a tuple in parentheses, its
  elements separated by a comma and a space, with a comma after a single element. An
  example environment answers every parse with the given statement, payload and
  function type, and lists five of the names of \<^verbatim>\<open>dir(builtins)\<close>.
\<close>

fun unparse_example :: "ast_expr \<Rightarrow> string" where
  "unparse_example (Name_ast n) = n"
| "unparse_example (Constant_ast Ellipsis) = ''...''"
| "unparse_example (Constant_ast (Constant_value v)) = v"
| "unparse_example (Subscript_ast a b) = unparse_example a @ ''['' @ unparse_example b @ '']''"
| "unparse_example (Tuple_ast []) = ''()''"
| "unparse_example (Tuple_ast [e]) = ''('' @ unparse_example e @ '',)''"
| "unparse_example (Tuple_ast (e # es)) =
     ''('' @ unparse_example e @ concat (map (\<lambda>x. '', '' @ unparse_example x) es) @ '')''"

definition example_env ::
    "ast_stmt \<Rightarrow> ast_expr option \<Rightarrow> ast_FunctionType option \<Rightarrow> env" where
  "example_env node_ast payload func_type =
     \<lparr>builtins_dir = [''bool'', ''float'', ''int'', ''object'', ''str''],
      ast_unparse = unparse_example,
      ast_parse_eval = (\<lambda>_. payload),
      ast_parse_func_type = (\<lambda>_. func_type),
      code_for_node = (\<lambda>_. []),
      ast_parse = (\<lambda>_ _. Some [node_ast])\<rparr>"

definition no_arguments :: ast_arguments where
  "no_arguments =
     \<lparr>posonlyargs = [], args = [], vararg = None, kwonlyargs = [], kwarg = None\<rparr>"

text \<open>The \<^verbatim>\<open>ast\<close> statement of a statement that carries the given type comment.\<close>

definition commented :: "string option \<Rightarrow> ast_stmt" where
  "commented c = \<lparr>stmt_type_comment = c, stmt_args = no_arguments\<rparr>"

text \<open>A trailing whitespace of two spaces and the given comment.\<close>

definition trailing_comment :: "string \<Rightarrow> TrailingWhitespace" where
  "trailing_comment c =
     \<lparr>tw_whitespace = ''  '', tw_comment = Some (Comment c), tw_newline = None\<rparr>"

definition line_of :: "BaseSmallStatement \<Rightarrow> string \<Rightarrow> SimpleStatementLine" where
  "line_of st c =
     \<lparr>ssl_body = [st], ssl_leading_lines = [], ssl_trailing_whitespace = trailing_comment c\<rparr>"

definition pass_line :: statement where
  "pass_line =
     SimpleStatementLine_stmt
       (SimpleStatementLine_new [Small_stmt ''pass'' MaybeSentinel_DEFAULT] [])"

text \<open>
  The statements of the examples, each with the comment \<open>c\<close> after it or after its
  header: \<^verbatim>\<open>x = 1\<close>, \<^verbatim>\<open>x = y = 1, 2\<close>, \<^verbatim>\<open>for x in z:\<close>, \<^verbatim>\<open>with z as x:\<close> and
  \<^verbatim>\<open>def f() -> int:\<close> or \<^verbatim>\<open>def f():\<close>, the compound ones with the body \<^verbatim>\<open>pass\<close>.
\<close>

definition name_line :: "string \<Rightarrow> SimpleStatementLine" where
  "name_line c =
     line_of
       (Assign_stmt (Assign [AssignTarget (Name ''x'')] (Integer ''1'') MaybeSentinel_DEFAULT))
       c"

definition two_targets :: Assign where
  "two_targets =
     Assign [AssignTarget (Name ''x''), AssignTarget (Name ''y'')]
       (Tuple [Element (Integer ''1''), Element (Integer ''2'')])
       MaybeSentinel_DEFAULT"

definition commented_block :: "string \<Rightarrow> IndentedBlock" where
  "commented_block c = IndentedBlock (trailing_comment c) [pass_line]"

definition one_name_for :: "string \<Rightarrow> For" where
  "one_name_for c =
     For (Name ''x'') (Name ''z'') (IndentedBlock_suite (commented_block c)) []"

definition one_name_with :: "string \<Rightarrow> With" where
  "one_name_with c =
     With [\<lparr>item = Name ''z'', asname = Some (AsName (Name ''x''))\<rparr>]
       (IndentedBlock_suite (commented_block c)) []"

definition plain_function :: "Annotation option \<Rightarrow> string \<Rightarrow> FunctionDef" where
  "plain_function r c = FunctionDef ''f'' [] r (IndentedBlock_suite (commented_block c)) []"

text \<open>
  The environment of a statement whose type comment \<^verbatim>\<open>int, int\<close> decodes to a tuple
  of two names, and the environment of a statement whose type comment \<^verbatim>\<open>List[int\<close> does
  not decode.
\<close>

definition pair_env :: env where
  "pair_env =
     example_env (commented (Some ''int, int''))
       (Some (Tuple_ast [Name_ast ''int'', Name_ast ''int''])) None"

definition undecodable_env :: env where
  "undecodable_env = example_env (commented (Some ''List[int'')) None None"

text \<open>
  The environment of a statement whose type comment \<^verbatim>\<open>int\<close> decodes to a name, and a
  context manager with the given items.
\<close>

definition int_env :: env where
  "int_env = example_env (commented (Some ''int'')) (Some (Name_ast ''int'')) None"

definition with_of :: "WithItem list \<Rightarrow> string \<Rightarrow> With" where
  "with_of items c = With items (IndentedBlock_suite (commented_block c)) []"

text \<open>
  The transform inside a function whose type information gives \<^verbatim>\<open>List[int]\<close> to the
  parameter \<^verbatim>\<open>x\<close> and returns \<^verbatim>\<open>int\<close>; the assignment \<^verbatim>\<open>x = 1\<close>; a parameter
  without annotation.
\<close>

definition typed_state :: ConvertTypeComments where
  "typed_state =
     \<lparr>function_type_info_stack =
        [\<lparr>arguments = [(''x'', Some ''List[int]'')], returns = Some ''int''\<rparr>],
      function_body_stack = [IndentedBlock_suite (commented_block ''# type: (List[int]) -> int'')],
      aggressively_strip_type_comments = False\<rparr>"

definition name_assign :: Assign where
  "name_assign = Assign [AssignTarget (Name ''x'')] (Integer ''1'') MaybeSentinel_DEFAULT"

definition bare_param :: "string \<Rightarrow> Param" where
  "bare_param n =
     \<lparr>param_name = n, param_annotation = None, param_default = None, param_star = []\<rparr>"

text \<open>
  The function \<^verbatim>\<open>def f(x, y):  # type: (int) -> bool\<close> with the body \<^verbatim>\<open>pass\<close>: two
  parameters, a function-level comment with one argument type, and its environment.
\<close>

definition two_arg_function_ast :: ast_stmt where
  "two_arg_function_ast =
     \<lparr>stmt_type_comment = Some ''(int) -> bool'',
      stmt_args = no_arguments
        \<lparr>args := [\<lparr>arg = ''x'', arg_type_comment = None\<rparr>,
                  \<lparr>arg = ''y'', arg_type_comment = None\<rparr>]\<rparr>\<rparr>"

definition one_type_to_bool :: ast_FunctionType where
  "one_type_to_bool = \<lparr>argtypes = [Name_ast ''int''], functype_returns = Name_ast ''bool''\<rparr>"

definition mismatch_env :: env where
  "mismatch_env = example_env two_arg_function_ast None (Some one_type_to_bool)"

definition two_param_function :: FunctionDef where
  "two_param_function =
     FunctionDef ''f'' [bare_param ''x'', bare_param ''y''] None
       (IndentedBlock_suite (commented_block ''# type: (int) -> bool'')) []"

text \<open>
  The assignments \<^verbatim>\<open>x, = f()  # type: int,\<close> and \<^verbatim>\<open>() = ()  # type: ()\<close> with their
  environments: the target and the decoded comment are tuples of one element and of
  none.
\<close>

definition one_tuple_env :: env where
  "one_tuple_env =
     example_env (commented (Some ''int,'')) (Some (Tuple_ast [Name_ast ''int''])) None"

definition one_tuple_line :: SimpleStatementLine where
  "one_tuple_line =
     line_of
       (Assign_stmt
          (Assign [AssignTarget (Tuple [Element (Name ''x'')])] (Call (Name ''f'') [])
             MaybeSentinel_DEFAULT))
       ''# type: int,''"

definition empty_tuple_env :: env where
  "empty_tuple_env = example_env (commented (Some ''()'')) (Some (Tuple_ast [])) None"

definition empty_tuple_line :: SimpleStatementLine where
  "empty_tuple_line =
     line_of (Assign_stmt (Assign [AssignTarget (Tuple [])] (Tuple []) MaybeSentinel_DEFAULT))
       ''# type: ()''"

text \<open>
  The parameter collections of \<^verbatim>\<open>LambdaCreationTest\<close>: a parameter with a default, and
  a collection of plain and defaulted positional parameters.
\<close>

definition defaulted_param :: "string \<Rightarrow> BaseExpression \<Rightarrow> Param" where
  "defaulted_param n d =
     \<lparr>param_name = n, param_annotation = None, param_default = Some d, param_star = []\<rparr>"

definition parameters_of :: "Param list \<Rightarrow> Param list \<Rightarrow> Parameters" where
  "parameters_of ps dps =
     \<lparr>params = ps, default_params = dps, star_arg = None, kwonly_params = [],
      star_kwarg = None\<rparr>"

section \<open>More inputs for the examples\<close>

text \<open>
  The function \<^verbatim>\<open>def f() -> int:  # type: () -> str\<close>, whose return annotation is
  already there, with its environment.
\<close>

definition returns_to_str :: ast_FunctionType where
  "returns_to_str = \<lparr>argtypes = [], functype_returns = Name_ast ''str''\<rparr>"

definition annotated_env :: env where
  "annotated_env = example_env (commented (Some ''() -> str'')) None (Some returns_to_str)"

definition annotated_function :: "IndentedBlock \<Rightarrow> FunctionDef" where
  "annotated_function b =
     FunctionDef ''f'' [] (Some (Annotation (Name ''int''))) (IndentedBlock_suite b) []"

text \<open>
  The block \<^verbatim>\<open>pass\<close> without header comment, the transform inside one function, and
  an empty line with a comment.
\<close>

definition stripped_block :: IndentedBlock where
  "stripped_block = IndentedBlock TrailingWhitespace_default [pass_line]"

definition in_function :: "FunctionTypeInfo \<Rightarrow> IndentedBlock \<Rightarrow> bool \<Rightarrow> ConvertTypeComments" where
  "in_function info b strip =
     \<lparr>function_type_info_stack = [info], function_body_stack = [IndentedBlock_suite b],
      aggressively_strip_type_comments = strip\<rparr>"

definition comment_line :: "string \<Rightarrow> EmptyLine" where
  "comment_line c =
     \<lparr>el_indent = True, el_whitespace = [], el_comment = Some (Comment c), el_newline = None\<rparr>"

text \<open>
  The targets \<^verbatim>\<open>a, (b, c)\<close> of a loop and of a context manager, and the assignment
  \<^verbatim>\<open>y, z = x = 1, 2\<close>, whose second target is a name.
\<close>

definition nested_target :: BaseExpression where
  "nested_target =
     Tuple [Element (Name ''a''),
            Element (Tuple [Element (Name ''b''), Element (Name ''c'')])]"

definition nested_for :: "string \<Rightarrow> For" where
  "nested_for c = For nested_target (Name ''z'') (IndentedBlock_suite (commented_block c)) []"

definition nested_with :: "string \<Rightarrow> With" where
  "nested_with c =
     With [\<lparr>item = Name ''z'', asname = Some (AsName nested_target)\<rparr>]
       (IndentedBlock_suite (commented_block c)) []"

definition later_target :: Assign where
  "later_target =
     Assign [AssignTarget (Tuple [Element (Name ''y''), Element (Name ''z'')]),
             AssignTarget (Name ''x'')]
       (Tuple [Element (Integer ''1''), Element (Integer ''2'')])
       MaybeSentinel_DEFAULT"

definition later_target_line :: "string \<Rightarrow> SimpleStatementLine" where
  "later_target_line c = line_of (Assign_stmt later_target) c"

section \<open>Properties\<close>

subsection \<open>Which exceptions leave the hooks\<close>

lemma ast_for_statement_raises:
  "ast_for_statement env n = Inl e \<Longrightarrow> e = IndexError \<or> e = SyntaxError"
  by (auto simp: ast_for_statement_def Let_def split: option.splits if_splits)

lemma annotation_for_statement_raises:
  "annotation_for_statement env n = Inl e \<Longrightarrow> e = IndexError \<or> e = SyntaxError"
  by (auto simp: annotation_for_statement_def split: sum.splits dest: ast_for_statement_raises)

lemma convert_Assign_no_ArityError: "convert_Assign env node ann \<noteq> Inl ArityError"
  by (auto simp: convert_Assign_def split: sum.splits exn.splits list.splits prod.splits)

lemma convert_Assign_ArityError_caught:
  "annotated_targets (assign_targets node) (unpack_annotation (ast_unparse env) ann) = Inl ArityError
   \<Longrightarrow> convert_Assign env node ann = Inr FailedToApplyAnnotation"
  by (simp add: convert_Assign_def)

lemma leave_SimpleStatementLine_no_ArityError:
  "leave_SimpleStatementLine env orig upd \<noteq> Inl ArityError"
proof
  assume a: "leave_SimpleStatementLine env orig upd = Inl ArityError"
  then show False
    using annotation_for_statement_raises [of env "SimpleStatementLine_stmt orig"]
      convert_Assign_no_ArityError [of env]
    by (auto simp: leave_SimpleStatementLine_def Let_def
        split: if_splits BaseSmallStatement.splits sum.splits option.splits converted.splits)
qed

lemma leave_For_no_ArityError: "leave_For env orig upd \<noteq> Inl ArityError"
proof
  assume a: "leave_For env orig upd = Inl ArityError"
  then show False
    using annotation_for_statement_raises [of env "For_stmt orig"]
    by (auto simp: leave_For_def
        split: BaseSuite.splits sum.splits option.splits exn.splits)
qed

lemma leave_With_no_ArityError: "leave_With env orig upd \<noteq> Inl ArityError"
proof
  assume a: "leave_With env orig upd = Inl ArityError"
  then show False
    using annotation_for_statement_raises [of env "With_stmt orig"]
    by (auto simp: leave_With_def Let_def
        split: BaseSuite.splits sum.splits option.splits exn.splits if_splits)
qed

lemma type_declaration_statements_raises:
  "type_declaration_statements env bs as ls = Inl e \<longleftrightarrow> annotated_bindings bs as = Inl e"
  by (auto simp: type_declaration_statements_def split: sum.splits)

lemma leave_SimpleStatementLine_ArityError:
  assumes "ssl_body upd \<noteq> []" and "last (ssl_body upd) = Assign_stmt assign"
    and "annotation_for_statement env (SimpleStatementLine_stmt orig) = Inr (Some ann)"
    and "annotated_targets (assign_targets assign) (unpack_annotation (ast_unparse env) ann)
           = Inl ArityError"
  shows "leave_SimpleStatementLine env orig upd = Inr (Node upd)"
  using assms by (simp add: leave_SimpleStatementLine_def convert_Assign_ArityError_caught)

lemma leave_For_ArityError:
  assumes "for_body upd = IndentedBlock_suite body"
    and "annotation_for_statement env (For_stmt orig) = Inr (Some ann)"
    and "annotated_bindings (unpack_target (for_target upd))
           (unpack_annotation (ast_unparse env) ann) = Inl ArityError"
  shows "leave_For env orig upd = Inr (Node upd)"
  using assms by (simp add: leave_For_def type_declaration_statements_def)

lemma leave_With_ArityError:
  assumes "with_body upd = IndentedBlock_suite body"
    and "annotation_for_statement env (With_stmt orig) = Inr (Some ann)"
    and "with_targets (with_items upd) = [t]"
    and "annotated_bindings (unpack_target t)
           (unpack_annotation (ast_unparse env) ann) = Inl ArityError"
  shows "leave_With env orig upd = Inr (Node upd)"
  using assms by (simp add: leave_With_def type_declaration_statements_def)

lemma annotation_for_statement_example:
  "annotation_for_statement (example_env (commented c) payload ft) n =
     Inr (case c of None \<Rightarrow> None | Some _ \<Rightarrow> payload)"
  by (simp add: annotation_for_statement_def ast_for_statement_def example_env_def
      commented_def parse_type_comment_def split: option.splits)

subsection \<open>Arity errors\<close>

lemma shapes_match_list_length: "shapes_match_list bs as \<Longrightarrow> length bs = length as"
proof (induction bs arbitrary: as)
  case Nil
  then show ?case by (cases as) simp_all
next
  case (Cons b bs)
  then show ?case by (cases as) simp_all
qed

lemma annotated_bindings_well_formed:
  "all_targets bs \<Longrightarrow>
     annotated_bindings bs as
       = (if shapes_match bs as then Inr (zipped bs as) else Inl ArityError)"
  "(\<forall>b \<in> set bl. all_targets b) \<Longrightarrow> length bl = length al \<Longrightarrow>
     annotated_bindings_zip bl al
       = (if shapes_match_list bl al then Inr (zipped_list bl al) else Inl ArityError)"
proof (induction bs as and bl al rule: annotated_bindings_annotated_bindings_zip.induct)
  case (1 bindings annotations)
  then show ?case
    by (cases bindings) (auto dest: shapes_match_list_length)
qed (auto split: sum.splits)

lemma annotated_bindings_pairs_only_on_match:
  "annotated_bindings bs as = Inr ps \<Longrightarrow> shapes_match bs as \<and> all_targets bs \<and> ps = zipped bs as"
  "annotated_bindings_zip bl al = Inr ps \<Longrightarrow> length bl = length al \<Longrightarrow>
     shapes_match_list bl al \<and> (\<forall>b \<in> set bl. all_targets b) \<and> ps = zipped_list bl al"
proof (induction bs as and bl al arbitrary: ps and ps
    rule: annotated_bindings_annotated_bindings_zip.induct)
  case (1 bindings annotations)
  then show ?case
    by (cases bindings) (auto split: if_splits)
qed (auto split: sum.splits if_splits)


lemma annotated_targets_well_formed:
  "(\<forall>t \<in> set ts. all_targets (unpack_target (at_target t))) \<Longrightarrow>
     annotated_targets ts as
       = (if (\<forall>t \<in> set ts. shapes_match (unpack_target (at_target t)) as)
          then Inr (map (\<lambda>t. zipped (unpack_target (at_target t)) as) ts)
          else Inl ArityError)"
  by (induction ts) (auto simp: annotated_bindings_well_formed(1))

lemma leave_SimpleStatementLine_mismatch:
  assumes "ssl_body upd \<noteq> []" and "last (ssl_body upd) = Assign_stmt assign"
    and "annotation_for_statement env (SimpleStatementLine_stmt orig) = Inr (Some ann)"
    and "\<forall>t \<in> set (assign_targets assign). all_targets (unpack_target (at_target t))"
    and "\<exists>t \<in> set (assign_targets assign).
           \<not> shapes_match (unpack_target (at_target t))
               (unpack_annotation (ast_unparse env) ann)"
  shows "leave_SimpleStatementLine env orig upd = Inr (Node upd)"
proof -
  have "annotated_targets (assign_targets assign) (unpack_annotation (ast_unparse env) ann)
          = Inl ArityError"
    using assms(4,5) by (simp add: annotated_targets_well_formed)
  with assms(1-3) show ?thesis by (rule leave_SimpleStatementLine_ArityError)
qed

lemma leave_For_mismatch:
  assumes "for_body upd = IndentedBlock_suite body"
    and "annotation_for_statement env (For_stmt orig) = Inr (Some ann)"
    and "all_targets (unpack_target (for_target upd))"
    and "\<not> shapes_match (unpack_target (for_target upd))
            (unpack_annotation (ast_unparse env) ann)"
  shows "leave_For env orig upd = Inr (Node upd)"
  using assms leave_For_ArityError [of upd body env orig ann]
  by (simp add: annotated_bindings_well_formed(1))

lemma leave_With_mismatch:
  assumes "with_body upd = IndentedBlock_suite body"
    and "annotation_for_statement env (With_stmt orig) = Inr (Some ann)"
    and "with_targets (with_items upd) = [t]"
    and "all_targets (unpack_target t)"
    and "\<not> shapes_match (unpack_target t) (unpack_annotation (ast_unparse env) ann)"
  shows "leave_With env orig upd = Inr (Node upd)"
  using assms leave_With_ArityError [of upd body env orig ann t]
  by (simp add: annotated_bindings_well_formed(1))

text \<open>
  Claim C3. Zipping a binding shape against an annotation shape raises the arity error
  exactly on a shape mismatch, at any depth: when all leaves are assignment targets,
  \<^verbatim>\<open>annotated_bindings\<close> returns the pairs of the specification when the shapes match
  and raises the arity error otherwise, and it returns pairs only for matching shapes.
  In particular two sequences of unequal length, and a sequence against a non-sequence
  in either direction, raise it. When the shape of some target of the statement being
  processed does not match, or the zipping raises the arity error, the statement's hook
  (\<^verbatim>\<open>leave_SimpleStatementLine\<close>, \<^verbatim>\<open>leave_For\<close>, \<^verbatim>\<open>leave_With\<close>) returns the node it
  was given, with its type comment, and the arity error never leaves any of the three
  hooks, so the traversal goes on with the next statement.
\<close>

theorem arity_error_aborts_statement_only:
  "(all_targets bs \<longrightarrow>
      annotated_bindings bs as
        = (if shapes_match bs as then Inr (zipped bs as) else Inl ArityError))
   \<and> (annotated_bindings bs as = Inr ps \<longrightarrow>
        shapes_match bs as \<and> all_targets bs \<and> ps = zipped bs as)
   \<and> (length bl \<noteq> length al \<longrightarrow>
        annotated_bindings (Bindings bl) (Annotations al) = Inl ArityError)
   \<and> annotated_bindings (Binding b) (Annotations al) = Inl ArityError
   \<and> annotated_bindings (Bindings bl) (Str a) = Inl ArityError
   \<and> (ssl_body upd \<noteq> [] \<and> last (ssl_body upd) = Assign_stmt assign
        \<and> annotation_for_statement env (SimpleStatementLine_stmt orig) = Inr (Some ann)
        \<and> (\<forall>t \<in> set (assign_targets assign). all_targets (unpack_target (at_target t)))
        \<and> (\<exists>t \<in> set (assign_targets assign).
               \<not> shapes_match (unpack_target (at_target t))
                   (unpack_annotation (ast_unparse env) ann))
      \<longrightarrow> leave_SimpleStatementLine env orig upd = Inr (Node upd))
   \<and> (for_body updf = IndentedBlock_suite bodyf
        \<and> annotation_for_statement env (For_stmt origf) = Inr (Some annf)
        \<and> all_targets (unpack_target (for_target updf))
        \<and> \<not> shapes_match (unpack_target (for_target updf))
              (unpack_annotation (ast_unparse env) annf)
      \<longrightarrow> leave_For env origf updf = Inr (Node updf))
   \<and> (with_body updw = IndentedBlock_suite bodyw
        \<and> annotation_for_statement env (With_stmt origw) = Inr (Some annw)
        \<and> with_targets (with_items updw) = [t]
        \<and> all_targets (unpack_target t)
        \<and> \<not> shapes_match (unpack_target t) (unpack_annotation (ast_unparse env) annw)
      \<longrightarrow> leave_With env origw updw = Inr (Node updw))
   \<and> (ssl_body upd \<noteq> [] \<and> last (ssl_body upd) = Assign_stmt assign
        \<and> annotation_for_statement env (SimpleStatementLine_stmt orig) = Inr (Some ann)
        \<and> annotated_targets (assign_targets assign)
              (unpack_annotation (ast_unparse env) ann) = Inl ArityError
      \<longrightarrow> leave_SimpleStatementLine env orig upd = Inr (Node upd))
   \<and> (for_body updf = IndentedBlock_suite bodyf
        \<and> annotation_for_statement env (For_stmt origf) = Inr (Some annf)
        \<and> annotated_bindings (unpack_target (for_target updf))
              (unpack_annotation (ast_unparse env) annf) = Inl ArityError
      \<longrightarrow> leave_For env origf updf = Inr (Node updf))
   \<and> (with_body updw = IndentedBlock_suite bodyw
        \<and> annotation_for_statement env (With_stmt origw) = Inr (Some annw)
        \<and> with_targets (with_items updw) = [t]
        \<and> annotated_bindings (unpack_target t)
              (unpack_annotation (ast_unparse env) annw) = Inl ArityError
      \<longrightarrow> leave_With env origw updw = Inr (Node updw))
   \<and> leave_SimpleStatementLine env orig upd \<noteq> Inl ArityError
   \<and> leave_For env origf updf \<noteq> Inl ArityError
   \<and> leave_With env origw updw \<noteq> Inl ArityError"
proof -
  have z1: "all_targets bs \<longrightarrow>
      annotated_bindings bs as
        = (if shapes_match bs as then Inr (zipped bs as) else Inl ArityError)"
    by (intro impI) (rule annotated_bindings_well_formed(1))
  have z2: "annotated_bindings bs as = Inr ps \<longrightarrow>
        shapes_match bs as \<and> all_targets bs \<and> ps = zipped bs as"
    by (intro impI) (rule annotated_bindings_pairs_only_on_match(1))
  have z3: "length bl \<noteq> length al \<longrightarrow>
        annotated_bindings (Bindings bl) (Annotations al) = Inl ArityError"
    by simp
  have z4: "annotated_bindings (Binding b) (Annotations al) = Inl ArityError"
    and z5: "annotated_bindings (Bindings bl) (Str a) = Inl ArityError"
    by simp_all
  have h1: "ssl_body upd \<noteq> [] \<and> last (ssl_body upd) = Assign_stmt assign
        \<and> annotation_for_statement env (SimpleStatementLine_stmt orig) = Inr (Some ann)
        \<and> (\<forall>t \<in> set (assign_targets assign). all_targets (unpack_target (at_target t)))
        \<and> (\<exists>t \<in> set (assign_targets assign).
               \<not> shapes_match (unpack_target (at_target t))
                   (unpack_annotation (ast_unparse env) ann))
      \<longrightarrow> leave_SimpleStatementLine env orig upd = Inr (Node upd)"
    using leave_SimpleStatementLine_mismatch [of upd assign env orig ann] by blast
  have h2: "for_body updf = IndentedBlock_suite bodyf
        \<and> annotation_for_statement env (For_stmt origf) = Inr (Some annf)
        \<and> all_targets (unpack_target (for_target updf))
        \<and> \<not> shapes_match (unpack_target (for_target updf))
              (unpack_annotation (ast_unparse env) annf)
      \<longrightarrow> leave_For env origf updf = Inr (Node updf)"
    using leave_For_mismatch [of updf bodyf env origf annf] by blast
  have h3: "with_body updw = IndentedBlock_suite bodyw
        \<and> annotation_for_statement env (With_stmt origw) = Inr (Some annw)
        \<and> with_targets (with_items updw) = [t]
        \<and> all_targets (unpack_target t)
        \<and> \<not> shapes_match (unpack_target t) (unpack_annotation (ast_unparse env) annw)
      \<longrightarrow> leave_With env origw updw = Inr (Node updw)"
    using leave_With_mismatch [of updw bodyw env origw annw t] by blast
  have k1: "ssl_body upd \<noteq> [] \<and> last (ssl_body upd) = Assign_stmt assign
        \<and> annotation_for_statement env (SimpleStatementLine_stmt orig) = Inr (Some ann)
        \<and> annotated_targets (assign_targets assign)
              (unpack_annotation (ast_unparse env) ann) = Inl ArityError
      \<longrightarrow> leave_SimpleStatementLine env orig upd = Inr (Node upd)"
    using leave_SimpleStatementLine_ArityError [of upd assign env orig ann] by blast
  have k2: "for_body updf = IndentedBlock_suite bodyf
        \<and> annotation_for_statement env (For_stmt origf) = Inr (Some annf)
        \<and> annotated_bindings (unpack_target (for_target updf))
              (unpack_annotation (ast_unparse env) annf) = Inl ArityError
      \<longrightarrow> leave_For env origf updf = Inr (Node updf)"
    using leave_For_ArityError [of updf bodyf env origf annf] by blast
  have k3: "with_body updw = IndentedBlock_suite bodyw
        \<and> annotation_for_statement env (With_stmt origw) = Inr (Some annw)
        \<and> with_targets (with_items updw) = [t]
        \<and> annotated_bindings (unpack_target t)
              (unpack_annotation (ast_unparse env) annw) = Inl ArityError
      \<longrightarrow> leave_With env origw updw = Inr (Node updw)"
    using leave_With_ArityError [of updw bodyw env origw annw t] by blast
  note n = leave_SimpleStatementLine_no_ArityError [of env orig upd]
    leave_For_no_ArityError [of env origf updf]
    leave_With_no_ArityError [of env origw updw]
  from z1 z2 z3 z4 z5 h1 h2 h3 k1 k2 k3 n show ?thesis by (intro conjI)
qed

text \<open>
  The theorem at a mismatch below the top level, \<^verbatim>\<open>for a, (b, c) in z:  # type: int, int\<close>
  and the context manager with the same target and comment, at a mismatch in a later
  target, \<^verbatim>\<open>y, z = x = 1, 2  # type: int, int\<close>, and at the matching shapes of
  \<^verbatim>\<open>x, y\<close> against \<^verbatim>\<open>int, str\<close>.
\<close>

theorem arity_error_aborts_statement_only_witness:
  "annotated_bindings (unpack_target nested_target) (Annotations [Str ''int'', Str ''int''])
     = Inl ArityError
   \<and> annotated_bindings (Bindings [Binding (Name ''x''), Binding (Name ''y'')])
         (Annotations [Str ''int'', Str ''str''])
     = Inr [(Name ''x'', ''int''), (Name ''y'', ''str'')]
   \<and> shapes_match (Bindings [Binding (Name ''x''), Binding (Name ''y'')])
         (Annotations [Str ''int'', Str ''str''])
   \<and> length [Binding (Name ''x'')] \<noteq> length [Str ''int'', Str ''int'']
   \<and> annotated_bindings (Bindings [Binding (Name ''x'')]) (Annotations [Str ''int'', Str ''int''])
       = Inl ArityError
   \<and> annotated_bindings (Binding (Name ''x'')) (Annotations [Str ''int'', Str ''int''])
       = Inl ArityError
   \<and> annotated_bindings (Bindings [Binding (Name ''x'')]) (Str ''int'') = Inl ArityError
   \<and> annotated_targets (assign_targets later_target) (Annotations [Str ''int'', Str ''int''])
       = Inl ArityError
   \<and> leave_SimpleStatementLine pair_env
         (later_target_line ''# type: int, int'') (later_target_line ''# type: int, int'')
       = Inr (Node (later_target_line ''# type: int, int''))
   \<and> tw_comment (ssl_trailing_whitespace (later_target_line ''# type: int, int''))
       = Some (Comment ''# type: int, int'')
   \<and> leave_For pair_env (nested_for ''# type: int, int'') (nested_for ''# type: int, int'')
       = Inr (Node (nested_for ''# type: int, int''))
   \<and> leave_With pair_env (nested_with ''# type: int, int'') (nested_with ''# type: int, int'')
       = Inr (Node (nested_with ''# type: int, int''))"
proof -
  let ?ann = "Tuple_ast [Name_ast ''int'', Name_ast ''int'']"
  let ?as = "Annotations [Str ''int'', Str ''int'']"
  let ?c = "''# type: int, int''"
  let ?xy = "Bindings [Binding (Name ''x''), Binding (Name ''y'')]"
  let ?is = "Annotations [Str ''int'', Str ''str'']"
  have a: "\<And>n. annotation_for_statement pair_env n = Inr (Some ?ann)"
    by (simp add: pair_env_def annotation_for_statement_example)
  have u: "unpack_annotation (ast_unparse pair_env) ?ann = ?as"
    by (simp add: pair_env_def example_env_def)
  have nt: "all_targets (unpack_target nested_target)"
    "\<not> shapes_match (unpack_target nested_target) ?as"
    by (simp_all add: nested_target_def)
  have z1: "annotated_bindings (unpack_target nested_target) ?as = Inl ArityError"
    using arity_error_aborts_statement_only
      [where bs = "unpack_target nested_target" and as = ?as] nt
    by simp
  have xy: "all_targets ?xy" "shapes_match ?xy ?is"
    "zipped ?xy ?is = [(Name ''x'', ''int''), (Name ''y'', ''str'')]"
    by simp_all
  have z2: "annotated_bindings ?xy ?is = Inr [(Name ''x'', ''int''), (Name ''y'', ''str'')]"
    using arity_error_aborts_statement_only [where bs = ?xy and as = ?is] xy
    by simp
  have d: "length [Binding (Name ''x'')] \<noteq> length [Str ''int'', Str ''int'']"
    by simp
  have z3: "annotated_bindings (Bindings [Binding (Name ''x'')]) ?as = Inl ArityError"
    and z4: "annotated_bindings (Binding (Name ''x'')) ?as = Inl ArityError"
    and z5: "annotated_bindings (Bindings [Binding (Name ''x'')]) (Str ''int'') = Inl ArityError"
    using arity_error_aborts_statement_only
      [where bl = "[Binding (Name ''x'')]" and al = "[Str ''int'', Str ''int'']"
        and b = "Name ''x''" and a = "''int''"] d
    by blast+
  have l: "ssl_body (later_target_line ?c) \<noteq> []"
    "last (ssl_body (later_target_line ?c)) = Assign_stmt later_target"
    by (simp_all add: later_target_line_def line_of_def)
  have lt: "\<forall>t \<in> set (assign_targets later_target). all_targets (unpack_target (at_target t))"
    "\<exists>t \<in> set (assign_targets later_target).
       \<not> shapes_match (unpack_target (at_target t)) ?as"
    by (simp_all add: later_target_def)
  have at: "annotated_targets (assign_targets later_target) ?as = Inl ArityError"
    using lt by (simp add: annotated_targets_well_formed)
  have f: "for_body (nested_for ?c) = IndentedBlock_suite (commented_block ?c)"
    "for_target (nested_for ?c) = nested_target"
    by (simp_all add: nested_for_def)
  have w: "with_body (nested_with ?c) = IndentedBlock_suite (commented_block ?c)"
    "with_targets (with_items (nested_with ?c)) = [nested_target]"
    by (simp_all add: nested_with_def)
  note inst = arity_error_aborts_statement_only
      [where env = pair_env
        and upd = "later_target_line ?c" and orig = "later_target_line ?c"
        and assign = later_target and ann = ?ann
        and updf = "nested_for ?c" and origf = "nested_for ?c"
        and bodyf = "commented_block ?c" and annf = ?ann
        and updw = "nested_with ?c" and origw = "nested_with ?c"
        and bodyw = "commented_block ?c" and annw = ?ann and t = nested_target]
  have h1: "leave_SimpleStatementLine pair_env (later_target_line ?c) (later_target_line ?c)
              = Inr (Node (later_target_line ?c))"
    using inst a u l lt by simp
  have h2: "leave_For pair_env (nested_for ?c) (nested_for ?c) = Inr (Node (nested_for ?c))"
    using inst a u f nt by simp
  have h3: "leave_With pair_env (nested_with ?c) (nested_with ?c) = Inr (Node (nested_with ?c))"
    using inst a u w nt by simp
  have tc: "tw_comment (ssl_trailing_whitespace (later_target_line ?c)) = Some (Comment ?c)"
    by (simp add: later_target_line_def line_of_def trailing_comment_def)
  from z1 z2 xy(2) d z3 z4 z5 at h1 tc h2 h3 show ?thesis by (intro conjI)
qed

subsection \<open>Context managers without exactly one binding\<close>

lemma length_with_targets:
  "length (with_targets is) = length (filter (\<lambda>i. asname i \<noteq> None) is)"
  by (induction "is") (auto split: option.splits)

text \<open>
  Claim C10. A \<^verbatim>\<open>With\<close> statement whose items do not carry exactly one \<^verbatim>\<open>as\<close>
  binding (none, or two or more) is returned by \<^verbatim>\<open>leave_With\<close> as it is, whatever its
  type comment decodes to.
\<close>

theorem with_not_one_binding_unchanged:
  assumes "annotation_for_statement env (With_stmt orig) = Inr a"
    and "length (filter (\<lambda>i. asname i \<noteq> None) (with_items upd)) \<noteq> 1"
  shows "leave_With env orig upd = Inr (Node upd)"
  using assms
  by (simp add: leave_With_def length_with_targets split: BaseSuite.splits option.splits)

text \<open>
  The theorem at \<^verbatim>\<open>with a as x, b as y:  # type: int\<close> and at
  \<^verbatim>\<open>with a:  # type: int\<close>.
\<close>

theorem with_not_one_binding_unchanged_witness:
  "annotation_for_statement int_env
       (With_stmt (with_of [\<lparr>item = Name ''a'', asname = Some (AsName (Name ''x''))\<rparr>,
                            \<lparr>item = Name ''b'', asname = Some (AsName (Name ''y''))\<rparr>]
                     ''# type: int''))
     = Inr (Some (Name_ast ''int''))
   \<and> length (filter (\<lambda>i. asname i \<noteq> None)
          [\<lparr>item = Name ''a'', asname = Some (AsName (Name ''x''))\<rparr>,
           \<lparr>item = Name ''b'', asname = Some (AsName (Name ''y''))\<rparr>]) \<noteq> 1
   \<and> leave_With int_env
         (with_of [\<lparr>item = Name ''a'', asname = Some (AsName (Name ''x''))\<rparr>,
                   \<lparr>item = Name ''b'', asname = Some (AsName (Name ''y''))\<rparr>] ''# type: int'')
         (with_of [\<lparr>item = Name ''a'', asname = Some (AsName (Name ''x''))\<rparr>,
                   \<lparr>item = Name ''b'', asname = Some (AsName (Name ''y''))\<rparr>] ''# type: int'')
       = Inr (Node (with_of [\<lparr>item = Name ''a'', asname = Some (AsName (Name ''x''))\<rparr>,
                   \<lparr>item = Name ''b'', asname = Some (AsName (Name ''y''))\<rparr>] ''# type: int''))
   \<and> leave_With int_env
         (with_of [\<lparr>item = Name ''a'', asname = None\<rparr>] ''# type: int'')
         (with_of [\<lparr>item = Name ''a'', asname = None\<rparr>] ''# type: int'')
       = Inr (Node (with_of [\<lparr>item = Name ''a'', asname = None\<rparr>] ''# type: int''))"
proof -
  let ?two = "[\<lparr>item = Name ''a'', asname = Some (AsName (Name ''x''))\<rparr>,
               \<lparr>item = Name ''b'', asname = Some (AsName (Name ''y''))\<rparr>]"
  let ?none = "[\<lparr>item = Name ''a'', asname = None\<rparr>]"
  have a: "\<And>n. annotation_for_statement int_env n = Inr (Some (Name_ast ''int''))"
    by (simp add: int_env_def annotation_for_statement_example)
  have i: "with_items (with_of ?two ''# type: int'') = ?two"
    "with_items (with_of ?none ''# type: int'') = ?none"
    by (simp_all add: with_of_def)
  show ?thesis
    using with_not_one_binding_unchanged
        [of int_env "with_of ?two ''# type: int''" "Some (Name_ast ''int'')"
          "with_of ?two ''# type: int''"]
      with_not_one_binding_unchanged
        [of int_env "with_of ?none ''# type: int''" "Some (Name_ast ''int'')"
          "with_of ?none ''# type: int''"]
    by (simp add: a i)
qed

subsection \<open>Type comments that do not decode\<close>

lemma decode_failure_is_no_annotation:
  assumes "ast_for_statement env n = Inr node_ast"
    and "stmt_type_comment node_ast = Some s" and "ast_parse_eval env s = None"
  shows "annotation_for_statement env n = Inr None"
  using assms by (simp add: annotation_for_statement_def parse_type_comment_def)

lemma no_comment_is_no_annotation:
  assumes "ast_for_statement env n = Inr node_ast" and "stmt_type_comment node_ast = None"
  shows "annotation_for_statement env n = Inr None"
  using assms by (simp add: annotation_for_statement_def parse_type_comment_def)

lemma leave_SimpleStatementLine_no_annotation:
  assumes "annotation_for_statement env (SimpleStatementLine_stmt orig) = Inr None"
    and "ssl_body upd \<noteq> []"
  shows "leave_SimpleStatementLine env orig upd = Inr (Node upd)"
  using assms by (simp add: leave_SimpleStatementLine_def split: BaseSmallStatement.splits)

lemma leave_For_no_annotation:
  assumes "annotation_for_statement env (For_stmt orig) = Inr None"
  shows "leave_For env orig upd = Inr (Node upd)"
  using assms by (simp add: leave_For_def split: BaseSuite.splits)

lemma leave_With_no_annotation:
  assumes "annotation_for_statement env (With_stmt orig) = Inr None"
  shows "leave_With env orig upd = Inr (Node upd)"
  using assms by (simp add: leave_With_def split: BaseSuite.splits)

lemma from_cst_decode_failure:
  assumes "ast_for_statement env (FunctionDef_stmt f) = Inr node_ast"
    and "stmt_type_comment node_ast = Some s" and "ast_parse_func_type env s = None"
  shows "from_cst env f = Inr \<lparr>arguments = [], returns = None\<rparr>"
  using assms by (simp add: from_cst_def parse_func_type_comment_def)

lemma visit_FunctionDef_from_cst:
  assumes "from_cst env f = Inr info"
  shows "visit_FunctionDef env self f =
     Inr \<lparr>function_type_info_stack = function_type_info_stack self @ [info],
          function_body_stack = function_body_stack self @ [fd_body f],
          aggressively_strip_type_comments = (\<not> is_empty info)\<rparr>"
  using assms by (simp add: visit_FunctionDef_def)

lemma is_empty_empty: "is_empty \<lparr>arguments = [], returns = None\<rparr>"
  by (simp add: is_empty_def)

lemma whitespace_hooks_not_stripping:
  assumes "\<not> aggressively_strip_type_comments self"
  shows "leave_TrailingWhitespace self ot ut = Node ut"
    and "leave_EmptyLine self oe ue = Node ue"
  using assms by (simp_all add: leave_TrailingWhitespace_def leave_EmptyLine_def)

lemma function_hooks_empty_info:
  assumes "function_type_info_stack self \<noteq> []"
    and "is_empty (last (function_type_info_stack self))"
  shows "leave_Param env self op up = Inr up"
    and "leave_IndentedBlock self ob ub = Inr ub"
    and "function_body_stack self \<noteq> [] \<Longrightarrow>
          leave_FunctionDef env self orig upd =
            Inr (upd, self\<lparr>function_body_stack := butlast (function_body_stack self),
                          function_type_info_stack := butlast (function_type_info_stack self)\<rparr>)"
  using assms
  by (simp_all add: leave_Param_def leave_IndentedBlock_def leave_FunctionDef_def is_empty_def
      Let_def split: option.splits)

lemma ast_for_statement_example:
  "ast_for_statement (example_env node_ast payload ft) n = Inr node_ast"
  by (simp add: ast_for_statement_def example_env_def)

text \<open>
  Claim C7. When the payload of a statement's type comment does not decode, the statement
  is treated as one without annotation: \<^verbatim>\<open>leave_SimpleStatementLine\<close>, \<^verbatim>\<open>leave_For\<close> and
  \<^verbatim>\<open>leave_With\<close> return the node they were given, comment included, and raise nothing.
  When the comment of a function definition does not decode as a function type,
  \<^verbatim>\<open>visit_FunctionDef\<close> succeeds, switches stripping off, and every hook of the function
  definition returns the node it was given.
\<close>

theorem decode_failure_leaves_statement_unchanged:
  "(ast_for_statement env (SimpleStatementLine_stmt orig) = Inr node_ast
      \<and> stmt_type_comment node_ast = Some s \<and> ast_parse_eval env s = None
      \<and> ssl_body upd \<noteq> []
    \<longrightarrow> leave_SimpleStatementLine env orig upd = Inr (Node upd))
   \<and> (ast_for_statement env (For_stmt origf) = Inr node_ast
      \<and> stmt_type_comment node_ast = Some s \<and> ast_parse_eval env s = None
    \<longrightarrow> leave_For env origf updf = Inr (Node updf))
   \<and> (ast_for_statement env (With_stmt origw) = Inr node_ast
      \<and> stmt_type_comment node_ast = Some s \<and> ast_parse_eval env s = None
    \<longrightarrow> leave_With env origw updw = Inr (Node updw))
   \<and> (ast_for_statement env (FunctionDef_stmt f) = Inr node_ast
      \<and> stmt_type_comment node_ast = Some s \<and> ast_parse_func_type env s = None
    \<longrightarrow> (\<exists>self'. visit_FunctionDef env self f = Inr self'
          \<and> \<not> aggressively_strip_type_comments self'
          \<and> leave_TrailingWhitespace self' ot ut = Node ut
          \<and> leave_EmptyLine self' oe ue = Node ue
          \<and> leave_Param env self' op up = Inr up
          \<and> leave_IndentedBlock self' ob ub = Inr ub
          \<and> leave_FunctionDef env self' f updd =
              Inr (updd, self\<lparr>aggressively_strip_type_comments := False\<rparr>)))"
proof -
  have fn: "\<exists>self'. visit_FunctionDef env self f = Inr self'
          \<and> \<not> aggressively_strip_type_comments self'
          \<and> leave_TrailingWhitespace self' ot ut = Node ut
          \<and> leave_EmptyLine self' oe ue = Node ue
          \<and> leave_Param env self' op up = Inr up
          \<and> leave_IndentedBlock self' ob ub = Inr ub
          \<and> leave_FunctionDef env self' f updd =
              Inr (updd, self\<lparr>aggressively_strip_type_comments := False\<rparr>)"
    if a: "ast_for_statement env (FunctionDef_stmt f) = Inr node_ast"
      "stmt_type_comment node_ast = Some s" "ast_parse_func_type env s = None"
  proof -
    let ?info = "\<lparr>arguments = [], returns = None\<rparr>"
    let ?s = "\<lparr>function_type_info_stack = function_type_info_stack self @ [?info],
          function_body_stack = function_body_stack self @ [fd_body f],
          aggressively_strip_type_comments = False\<rparr>"
    have v: "visit_FunctionDef env self f = Inr ?s"
      using from_cst_decode_failure [OF a] by (simp add: visit_FunctionDef_from_cst is_empty_empty)
    have st: "function_type_info_stack ?s \<noteq> []" "is_empty (last (function_type_info_stack ?s))"
      "function_body_stack ?s \<noteq> []" "\<not> aggressively_strip_type_comments ?s"
      by (simp_all add: is_empty_empty)
    have "leave_FunctionDef env ?s f updd =
            Inr (updd, self\<lparr>aggressively_strip_type_comments := False\<rparr>)"
      using function_hooks_empty_info(3) [OF st(1,2,3), of env f updd] by simp
    then show ?thesis
      using v whitespace_hooks_not_stripping [OF st(4)] function_hooks_empty_info(1,2) [OF st(1,2)]
      by simp
  qed
  show ?thesis
    using decode_failure_is_no_annotation [of env _ node_ast s]
      leave_SimpleStatementLine_no_annotation [of env orig upd]
      leave_For_no_annotation [of env origf updf]
      leave_With_no_annotation [of env origw updw] fn
    by blast
qed

text \<open>
  The theorem at \<^verbatim>\<open>x = 1  # type: List[int\<close> and at a loop, a context manager and a
  function definition with the same comment.
\<close>

theorem decode_failure_leaves_statement_unchanged_witness:
  "ast_parse_eval undecodable_env ''List[int'' = None
   \<and> ast_parse_func_type undecodable_env ''List[int'' = None
   \<and> leave_SimpleStatementLine undecodable_env
         (name_line ''# type: List[int'') (name_line ''# type: List[int'')
       = Inr (Node (name_line ''# type: List[int''))
   \<and> leave_For undecodable_env
         (one_name_for ''# type: List[int'') (one_name_for ''# type: List[int'')
       = Inr (Node (one_name_for ''# type: List[int''))
   \<and> leave_With undecodable_env
         (one_name_with ''# type: List[int'') (one_name_with ''# type: List[int'')
       = Inr (Node (one_name_with ''# type: List[int''))
   \<and> visit_FunctionDef undecodable_env init (plain_function None ''# type: List[int'')
       = Inr \<lparr>function_type_info_stack = [\<lparr>arguments = [], returns = None\<rparr>],
              function_body_stack =
                [IndentedBlock_suite (commented_block ''# type: List[int'')],
              aggressively_strip_type_comments = False\<rparr>"
proof -
  let ?c = "''# type: List[int''"
  let ?a = "commented (Some ''List[int'')"
  have a: "\<And>n. ast_for_statement undecodable_env n = Inr ?a"
    by (simp add: undecodable_env_def ast_for_statement_example)
  have c: "stmt_type_comment ?a = Some ''List[int''"
    by (simp add: commented_def)
  have p: "ast_parse_eval undecodable_env ''List[int'' = None"
    "ast_parse_func_type undecodable_env ''List[int'' = None"
    by (simp_all add: undecodable_env_def example_env_def)
  have l: "ssl_body (name_line ?c) \<noteq> []"
    by (simp add: name_line_def line_of_def)
  have v: "visit_FunctionDef undecodable_env init (plain_function None ?c)
       = Inr \<lparr>function_type_info_stack = [\<lparr>arguments = [], returns = None\<rparr>],
              function_body_stack = [IndentedBlock_suite (commented_block ?c)],
              aggressively_strip_type_comments = False\<rparr>"
    using from_cst_decode_failure [OF a c p(2)]
    by (simp add: visit_FunctionDef_def init_def plain_function_def is_empty_def)
  show ?thesis
    using decode_failure_leaves_statement_unchanged
      [of undecodable_env "name_line ?c" ?a "''List[int''" "name_line ?c"
        "one_name_for ?c" "one_name_for ?c" "one_name_with ?c" "one_name_with ?c"
        "plain_function None ?c" init]
    by (simp add: a c p l v)
qed

subsection \<open>Quoted and bare annotations\<close>

lemma convert_annotation_quoted_or_builtin:
  "convert_annotation env raw = quoted_or_builtin (builtins_dir env) raw"
  by (simp add: convert_annotation_def is_builtin_def quoted_or_builtin_def)

lemma convert_Assign_AnnAssign:
  assumes "convert_Assign env node ann = Inr (Converted_AnnAssign c)"
  shows "\<exists>binding raw.
           annotated_targets (assign_targets node) (unpack_annotation (ast_unparse env) ann)
             = Inr [[(binding, raw)]]
           \<and> c = AnnAssign binding (convert_annotation env raw) (Some (assign_value node))
                   (assign_semicolon node)"
  using assms
  by (auto simp: convert_Assign_def split: sum.splits exn.splits list.splits prod.splits)

lemma convert_Assign_list:
  assumes "convert_Assign env node ann = Inr (Converted_list cs)"
  shows "\<exists>ats.
           annotated_targets (assign_targets node) (unpack_annotation (ast_unparse env) ann)
             = Inr ats
           \<and> (\<forall>p. ats \<noteq> [[p]])
           \<and> cs = map (\<lambda>(binding, raw). AnnAssign_stmt (type_declaration env binding raw))
                    (concat ats) @ [Assign_stmt node]"
  using assms
  by (auto simp: convert_Assign_def split: sum.splits exn.splits list.splits prod.splits)

lemma map_comp_snd_enumerate: "map (f \<circ> snd) (enumerate n xs) = map f xs"
  by (induction xs arbitrary: n) simp_all

lemma type_declaration_statements_lines:
  assumes "type_declaration_statements env bs as ls = Inr lines"
  shows "\<exists>pairs. annotated_bindings bs as = Inr pairs
           \<and> map ssl_body lines
               = map (\<lambda>(binding, raw). [AnnAssign_stmt (type_declaration env binding raw)]) pairs
           \<and> (\<forall>l \<in> set lines. ssl_trailing_whitespace l = TrailingWhitespace_default)"
proof (cases "annotated_bindings bs as")
  case (Inl e)
  with assms show ?thesis by (simp add: type_declaration_statements_def)
next
  case (Inr pairs)
  let ?f = "\<lambda>(i, (binding, raw)).
              SimpleStatementLine_new [AnnAssign_stmt (type_declaration env binding raw)]
                (if i = (0::nat) then ls else [])"
  have lines: "lines = map ?f (enumerate 0 pairs)"
    using assms Inr by (simp add: type_declaration_statements_def)
  have "map ssl_body lines =
          map ((\<lambda>(binding, raw). [AnnAssign_stmt (type_declaration env binding raw)]) \<circ> snd)
            (enumerate 0 pairs)"
    unfolding lines by (simp add: SimpleStatementLine_new_def split_beta comp_def)
  also have "\<dots> = map (\<lambda>(binding, raw). [AnnAssign_stmt (type_declaration env binding raw)])
                     pairs"
    by (rule map_comp_snd_enumerate)
  finally have b: "map ssl_body lines =
      map (\<lambda>(binding, raw). [AnnAssign_stmt (type_declaration env binding raw)]) pairs" .
  have "\<forall>l \<in> set lines. ssl_trailing_whitespace l = TrailingWhitespace_default"
    unfolding lines by (auto simp: SimpleStatementLine_new_def)
  with Inr b show ?thesis by simp
qed

text \<open>
  Claim C6. Every annotation that the transform emits is built from its raw text by the
  rule of the specification: the bare name when the raw text is one of
  \<^verbatim>\<open>dir(builtins)\<close>, the quoted string literal otherwise. This holds for
  \<^verbatim>\<open>_convert_annotation\<close> itself and for each place that emits an annotation: a type
  declaration, a parameter annotation (\<^verbatim>\<open>leave_Param\<close>), a return annotation
  (\<^verbatim>\<open>leave_FunctionDef\<close>), and the results of \<^verbatim>\<open>convert_Assign\<close> and
  \<^verbatim>\<open>type_declaration_statements\<close>.
\<close>

theorem annotations_quoted_unless_builtin:
  "convert_annotation env raw = quoted_or_builtin (builtins_dir env) raw
   \<and> annassign_annotation (type_declaration env binding raw)
       = quoted_or_builtin (builtins_dir env) raw
   \<and> (leave_Param env self op up = Inr p \<longrightarrow>
        p = up
        \<or> (\<exists>r. map_of (arguments (last (function_type_info_stack self))) (param_name up)
                   = Some (Some r)
                \<and> p = up\<lparr>param_annotation := Some (quoted_or_builtin (builtins_dir env) r)\<rparr>))
   \<and> (leave_FunctionDef env self orig upd = Inr (f, self') \<longrightarrow>
        f = upd
        \<or> (\<exists>r. returns (last (function_type_info_stack self)) = Some r
                \<and> fd_returns f = Some (quoted_or_builtin (builtins_dir env) r)))
   \<and> (convert_Assign env node ann = Inr (Converted_AnnAssign c) \<longrightarrow>
        (\<exists>b r. annotated_targets (assign_targets node)
                   (unpack_annotation (ast_unparse env) ann) = Inr [[(b, r)]]
                \<and> annassign_annotation c = quoted_or_builtin (builtins_dir env) r))
   \<and> (convert_Assign env node ann = Inr (Converted_list cs) \<longrightarrow>
        (\<exists>ats. annotated_targets (assign_targets node)
                   (unpack_annotation (ast_unparse env) ann) = Inr ats
                \<and> cs = map (\<lambda>(b, r). AnnAssign_stmt
                                (AnnAssign b (quoted_or_builtin (builtins_dir env) r) None
                                   MaybeSentinel_DEFAULT))
                          (concat ats)
                        @ [Assign_stmt node]))
   \<and> (type_declaration_statements env bs as ls = Inr lines \<longrightarrow>
        (\<exists>pairs. annotated_bindings bs as = Inr pairs
                \<and> map ssl_body lines
                    = map (\<lambda>(b, r). [AnnAssign_stmt
                                (AnnAssign b (quoted_or_builtin (builtins_dir env) r) None
                                   MaybeSentinel_DEFAULT)])
                        pairs))"
proof -
  have p: "leave_Param env self op up = Inr p \<longrightarrow>
        p = up
        \<or> (\<exists>r. map_of (arguments (last (function_type_info_stack self))) (param_name up)
                   = Some (Some r)
                \<and> p = up\<lparr>param_annotation := Some (quoted_or_builtin (builtins_dir env) r)\<rparr>)"
    by (auto simp: leave_Param_def Let_def convert_annotation_quoted_or_builtin
        split: if_splits option.splits)
  have f: "leave_FunctionDef env self orig upd = Inr (f, self') \<longrightarrow>
        f = upd
        \<or> (\<exists>r. returns (last (function_type_info_stack self)) = Some r
                \<and> fd_returns f = Some (quoted_or_builtin (builtins_dir env) r))"
    by (auto simp: leave_FunctionDef_def Let_def convert_annotation_quoted_or_builtin
        split: if_splits option.splits)
  have a: "convert_Assign env node ann = Inr (Converted_AnnAssign c) \<longrightarrow>
        (\<exists>b r. annotated_targets (assign_targets node)
                   (unpack_annotation (ast_unparse env) ann) = Inr [[(b, r)]]
                \<and> annassign_annotation c = quoted_or_builtin (builtins_dir env) r)"
    using convert_Assign_AnnAssign [of env node ann c]
    by (auto simp: convert_annotation_quoted_or_builtin)
  have l: "convert_Assign env node ann = Inr (Converted_list cs) \<longrightarrow>
        (\<exists>ats. annotated_targets (assign_targets node)
                   (unpack_annotation (ast_unparse env) ann) = Inr ats
                \<and> cs = map (\<lambda>(b, r). AnnAssign_stmt
                                (AnnAssign b (quoted_or_builtin (builtins_dir env) r) None
                                   MaybeSentinel_DEFAULT))
                          (concat ats)
                        @ [Assign_stmt node])"
    using convert_Assign_list [of env node ann cs]
    by (auto simp: convert_annotation_quoted_or_builtin type_declaration_def)
  have t: "type_declaration_statements env bs as ls = Inr lines \<longrightarrow>
        (\<exists>pairs. annotated_bindings bs as = Inr pairs
                \<and> map ssl_body lines
                    = map (\<lambda>(b, r). [AnnAssign_stmt
                                (AnnAssign b (quoted_or_builtin (builtins_dir env) r) None
                                   MaybeSentinel_DEFAULT)])
                        pairs)"
    using type_declaration_statements_lines [of env bs as ls lines]
    by (auto simp: convert_annotation_quoted_or_builtin type_declaration_def)
  show ?thesis
    using p f a l t
    by (simp add: convert_annotation_quoted_or_builtin type_declaration_def)
qed

text \<open>
  The theorem at the raw texts \<^verbatim>\<open>int\<close>, a built-in name, and \<^verbatim>\<open>List[int]\<close>, which is
  none, and the hooks evaluated with the annotations it gives.
\<close>

theorem annotations_quoted_unless_builtin_witness:
  "convert_annotation int_env ''int'' = Annotation (Name ''int'')
   \<and> convert_annotation int_env ''List[int]''
       = Annotation (SimpleString (CHR 0x22 # ''List[int]'' @ [CHR 0x22]))
   \<and> leave_Param int_env typed_state (bare_param ''x'') (bare_param ''x'')
       = Inr ((bare_param ''x'')
               \<lparr>param_annotation :=
                  Some (Annotation (SimpleString (CHR 0x22 # ''List[int]'' @ [CHR 0x22])))\<rparr>)
   \<and> leave_FunctionDef int_env typed_state (plain_function None []) (plain_function None [])
       = Inr (plain_function (Some (Annotation (Name ''int''))) [], init)
   \<and> convert_Assign int_env name_assign (Name_ast ''int'')
       = Inr (Converted_AnnAssign
                (AnnAssign (Name ''x'') (Annotation (Name ''int''))
                   (Some (Integer ''1'')) MaybeSentinel_DEFAULT))
   \<and> convert_Assign int_env two_targets (Name_ast ''int'')
       = Inr (Converted_list
                [AnnAssign_stmt
                   (AnnAssign (Name ''x'') (Annotation (Name ''int'')) None MaybeSentinel_DEFAULT),
                 AnnAssign_stmt
                   (AnnAssign (Name ''y'') (Annotation (Name ''int'')) None MaybeSentinel_DEFAULT),
                 Assign_stmt two_targets])
   \<and> type_declaration_statements int_env (Binding (Name ''x'')) (Str ''List[int]'') []
       = Inr [SimpleStatementLine_new
                [AnnAssign_stmt
                   (AnnAssign (Name ''x'')
                      (Annotation (SimpleString (CHR 0x22 # ''List[int]'' @ [CHR 0x22])))
                      None MaybeSentinel_DEFAULT)] []]"
proof -
  let ?quoted = "Annotation (SimpleString (CHR 0x22 # ''List[int]'' @ [CHR 0x22]))"
  let ?int = "Annotation (Name ''int'')"
  have q: "quoted_or_builtin (builtins_dir int_env) ''int'' = ?int"
    "quoted_or_builtin (builtins_dir int_env) ''List[int]'' = ?quoted"
    by (simp_all add: quoted_or_builtin_def int_env_def example_env_def)
  have c: "convert_annotation int_env ''int'' = ?int"
    "convert_annotation int_env ''List[int]'' = ?quoted"
    using annotations_quoted_unless_builtin [of int_env "''int''"]
      annotations_quoted_unless_builtin [of int_env "''List[int]''"]
    by (simp_all only: q)
  have u: "ast_unparse int_env (Name_ast ''int'') = ''int''"
    by (simp add: int_env_def example_env_def)
  have p: "leave_Param int_env typed_state (bare_param ''x'') (bare_param ''x'')
       = Inr ((bare_param ''x'')\<lparr>param_annotation := Some ?quoted\<rparr>)"
    by (simp add: leave_Param_def typed_state_def bare_param_def c)
  have f: "leave_FunctionDef int_env typed_state (plain_function None []) (plain_function None [])
       = Inr (plain_function (Some ?int) [], init)"
    by (simp add: leave_FunctionDef_def typed_state_def plain_function_def init_def c)
  have a: "convert_Assign int_env name_assign (Name_ast ''int'')
       = Inr (Converted_AnnAssign
                (AnnAssign (Name ''x'') ?int (Some (Integer ''1'')) MaybeSentinel_DEFAULT))"
    by (simp add: convert_Assign_def u name_assign_def c)
  have l: "convert_Assign int_env two_targets (Name_ast ''int'')
       = Inr (Converted_list
                [AnnAssign_stmt (AnnAssign (Name ''x'') ?int None MaybeSentinel_DEFAULT),
                 AnnAssign_stmt (AnnAssign (Name ''y'') ?int None MaybeSentinel_DEFAULT),
                 Assign_stmt two_targets])"
    by (simp add: convert_Assign_def u two_targets_def type_declaration_def c)
  have t: "type_declaration_statements int_env (Binding (Name ''x'')) (Str ''List[int]'') []
       = Inr [SimpleStatementLine_new
                [AnnAssign_stmt (AnnAssign (Name ''x'') ?quoted None MaybeSentinel_DEFAULT)] []]"
    by (simp add: type_declaration_statements_def enumerate_simps type_declaration_def c)
  from c p f a l t show ?thesis by (intro conjI)
qed

subsection \<open>A function-level comment of the wrong arity\<close>

text \<open>
  Claim C5 says that a function-level comment whose argument list is neither the
  ellipsis nor as long as the parameter list loses its argument types while its return
  type is still honoured. At \<^verbatim>\<open>def f(x, y):  # type: (int) -> bool\<close> the comment decodes,
  its return type prints as \<^verbatim>\<open>bool\<close>, and \<^verbatim>\<open>from_cst\<close> returns the empty
  information: no return type is recorded and \<^verbatim>\<open>leave_FunctionDef\<close> leaves the function
  without return annotation.
\<close>

theorem arity_mismatch_drops_return_type:
  "ast_parse_func_type mismatch_env ''(int) -> bool'' = Some one_type_to_bool
   \<and> ast_unparse mismatch_env (functype_returns one_type_to_bool) = ''bool''
   \<and> from_cst mismatch_env two_param_function = Inr \<lparr>arguments = [], returns = None\<rparr>
   \<and> visit_FunctionDef mismatch_env init two_param_function
       = Inr \<lparr>function_type_info_stack = [\<lparr>arguments = [], returns = None\<rparr>],
              function_body_stack = [fd_body two_param_function],
              aggressively_strip_type_comments = False\<rparr>
   \<and> leave_FunctionDef mismatch_env
         \<lparr>function_type_info_stack = [\<lparr>arguments = [], returns = None\<rparr>],
          function_body_stack = [fd_body two_param_function],
          aggressively_strip_type_comments = False\<rparr>
         two_param_function two_param_function
       = Inr (two_param_function, init)
   \<and> fd_returns two_param_function = None"
proof -
  have f: "from_cst mismatch_env two_param_function = Inr \<lparr>arguments = [], returns = None\<rparr>"
    by (simp add: from_cst_def ast_for_statement_def mismatch_env_def example_env_def
        two_arg_function_ast_def one_type_to_bool_def parse_func_type_comment_def
        function_args_def no_arguments_def)
  show ?thesis
    by (simp add: f visit_FunctionDef_def is_empty_def init_def leave_FunctionDef_def)
      (simp add: mismatch_env_def example_env_def one_type_to_bool_def two_param_function_def)
qed

text \<open>
  Claim C5 as amended. When the function-level comment decodes and its argument list
  is neither the single ellipsis nor as long as the list of parameters, \<^verbatim>\<open>from_cst\<close>
  returns the empty \<^verbatim>\<open>FunctionTypeInfo\<close>: the argument types, the return type and the
  inline comments of the parameters are all dropped.
\<close>

theorem function_comment_arity_mismatch_discards_all:
  assumes "ast_for_statement env (FunctionDef_stmt f) = Inr node_ast"
    and "stmt_type_comment node_ast = Some s"
    and "ast_parse_func_type env s = Some t"
    and "\<not> is_ellipsis_argtypes (argtypes t)"
    and "length (argtypes t) \<noteq> length (function_args (stmt_args node_ast))"
  shows "from_cst env f = Inr \<lparr>arguments = [], returns = None\<rparr>
         \<and> is_empty \<lparr>arguments = [], returns = None\<rparr>"
  using assms
  by (simp add: from_cst_def parse_func_type_comment_def Let_def is_empty_def)

text \<open>The amended claim at \<^verbatim>\<open>def f(x, y):  # type: (int) -> bool\<close>.\<close>

theorem function_comment_arity_mismatch_discards_all_witness:
  "ast_for_statement mismatch_env (FunctionDef_stmt two_param_function) = Inr two_arg_function_ast
   \<and> stmt_type_comment two_arg_function_ast = Some ''(int) -> bool''
   \<and> ast_parse_func_type mismatch_env ''(int) -> bool'' = Some one_type_to_bool
   \<and> \<not> is_ellipsis_argtypes (argtypes one_type_to_bool)
   \<and> length (argtypes one_type_to_bool) \<noteq> length (function_args (stmt_args two_arg_function_ast))
   \<and> from_cst mismatch_env two_param_function = Inr \<lparr>arguments = [], returns = None\<rparr>
   \<and> is_empty \<lparr>arguments = [], returns = None\<rparr>"
proof -
  have a: "ast_for_statement mismatch_env (FunctionDef_stmt two_param_function)
             = Inr two_arg_function_ast"
    by (simp add: mismatch_env_def ast_for_statement_example)
  have b: "stmt_type_comment two_arg_function_ast = Some ''(int) -> bool''"
    by (simp add: two_arg_function_ast_def)
  have c: "ast_parse_func_type mismatch_env ''(int) -> bool'' = Some one_type_to_bool"
    by (simp add: mismatch_env_def example_env_def)
  have d: "\<not> is_ellipsis_argtypes (argtypes one_type_to_bool)"
    by (simp add: one_type_to_bool_def)
  have e: "length (argtypes one_type_to_bool)
             \<noteq> length (function_args (stmt_args two_arg_function_ast))"
    by (simp add: one_type_to_bool_def two_arg_function_ast_def function_args_def
        no_arguments_def)
  show ?thesis
    using function_comment_arity_mismatch_discards_all [OF a b c d e] a b c d e by simp
qed

subsection \<open>Assignments to a tuple of one target or of none\<close>

text \<open>
  Claim C2 says that a tuple-shaped assignment becomes one type declaration per leaf
  followed by the original assignment. \<^verbatim>\<open>convert_Assign\<close> tests the number of targets
  and the number of leaves of the first one, so a tuple of one target passes as a plain
  target: \<^verbatim>\<open>x, = f()  # type: int,\<close> becomes the single statement
  \<^verbatim>\<open>x: int = f()\<close>, which binds \<^verbatim>\<open>x\<close> to the whole value.
\<close>

theorem one_tuple_target_loses_its_tuple:
  "leave_SimpleStatementLine one_tuple_env one_tuple_line one_tuple_line
     = Inr (Node
         \<lparr>ssl_body =
            [AnnAssign_stmt
               (AnnAssign (Name ''x'') (Annotation (Name ''int''))
                  (Some (Call (Name ''f'') [])) MaybeSentinel_DEFAULT)],
          ssl_leading_lines = [],
          ssl_trailing_whitespace =
            \<lparr>tw_whitespace = [], tw_comment = None, tw_newline = None\<rparr>\<rparr>)"
proof -
  have a: "\<And>n. annotation_for_statement one_tuple_env n
             = Inr (Some (Tuple_ast [Name_ast ''int'']))"
    by (simp add: one_tuple_env_def annotation_for_statement_example)
  have u: "ast_unparse one_tuple_env (Name_ast ''int'') = ''int''"
    by (simp add: one_tuple_env_def example_env_def)
  have c: "convert_annotation one_tuple_env ''int'' = Annotation (Name ''int'')"
    by (simp add: convert_annotation_def is_builtin_def one_tuple_env_def example_env_def)
  show ?thesis
    by (simp add: leave_SimpleStatementLine_def one_tuple_line_def line_of_def a u c
        convert_Assign_def strip_TrailingWhitespace_def trailing_comment_def)
qed

text \<open>
  With the empty tuple as target there is no leaf and no declaration, the list of new
  statements has one element, and the hook raises the error of its branch marked
  unreachable.
\<close>

lemma empty_tuple_target_raises:
  "leave_SimpleStatementLine empty_tuple_env empty_tuple_line empty_tuple_line
     = Inl (RuntimeError ''Unreachable code.'')"
proof -
  have a: "\<And>n. annotation_for_statement empty_tuple_env n = Inr (Some (Tuple_ast []))"
    by (simp add: empty_tuple_env_def annotation_for_statement_example)
  show ?thesis
    by (simp add: leave_SimpleStatementLine_def empty_tuple_line_def line_of_def a
        convert_Assign_def)
qed

subsection \<open>Defaults in a parameter collection\<close>

text \<open>
  Claim C9. Building a parameter collection fails exactly when a plain positional
  parameter carries a default or a defaulted positional parameter lacks one; the error
  names the invariant that is violated, and a collection that satisfies both
  requirements is accepted.
\<close>

theorem parameters_default_invariant:
  "((\<exists>p \<in> set (params ps). param_default p \<noteq> None)
      \<or> (\<exists>p \<in> set (default_params ps). param_default p = None))
     = (\<exists>e. Parameters_validate_defaults ps = Inl e)
   \<and> (Parameters_validate_defaults ps = Inl (CSTValidationError ''Cannot have defaults for params'')
        \<longrightarrow> (\<exists>p \<in> set (params ps). param_default p \<noteq> None))
   \<and> (Parameters_validate_defaults ps
          = Inl (CSTValidationError ''Must have defaults for default_params'')
        \<longrightarrow> (\<exists>p \<in> set (default_params ps). param_default p = None))
   \<and> (\<forall>e. Parameters_validate_defaults ps = Inl e \<longrightarrow>
          e = CSTValidationError ''Cannot have defaults for params''
          \<or> e = CSTValidationError ''Must have defaults for default_params'')
   \<and> ((\<forall>p \<in> set (params ps). param_default p = None)
        \<and> (\<forall>p \<in> set (default_params ps). param_default p \<noteq> None)
        \<longrightarrow> Parameters_validate_defaults ps = Inr ())"
  by (auto simp: Parameters_validate_defaults_def list_ex_iff split: if_splits)

text \<open>
  The theorem at the collections of \<^verbatim>\<open>LambdaCreationTest\<close>: a plain parameter with the
  default \<^verbatim>\<open>"one"\<close>, a defaulted parameter without default, and the valid
  \<^verbatim>\<open>bar, baz = 5\<close>.
\<close>

theorem parameters_default_invariant_witness:
  "Parameters_validate_defaults
       (parameters_of [defaulted_param ''bar'' (SimpleString (CHR 0x22 # ''one'' @ [CHR 0x22]))] [])
     = Inl (CSTValidationError ''Cannot have defaults for params'')
   \<and> Parameters_validate_defaults (parameters_of [] [bare_param ''bar''])
     = Inl (CSTValidationError ''Must have defaults for default_params'')
   \<and> Parameters_validate_defaults
       (parameters_of [bare_param ''bar''] [defaulted_param ''baz'' (Integer ''5'')])
     = Inr ()"
  using parameters_default_invariant
      [of "parameters_of
             [defaulted_param ''bar'' (SimpleString (CHR 0x22 # ''one'' @ [CHR 0x22]))] []"]
    parameters_default_invariant [of "parameters_of [] [bare_param ''bar'']"]
    parameters_default_invariant
      [of "parameters_of [bare_param ''bar''] [defaulted_param ''baz'' (Integer ''5'')]"]
  by (auto simp: parameters_of_def bare_param_def defaulted_param_def)

subsection \<open>Which type comments are stripped\<close>

lemma strip_TrailingWhitespace_comment [simp]:
  "tw_comment (strip_TrailingWhitespace w) = None"
  by (simp add: strip_TrailingWhitespace_def)

lemma TrailingWhitespace_default_comment [simp]:
  "tw_comment TrailingWhitespace_default = None"
  by (simp add: TrailingWhitespace_default_def)

lemma is_type_comment_None [simp]: "\<not> is_type_comment None"
  by (simp add: is_type_comment_def)

lemma leading_lines_of_changed [simp]:
  "leading_lines_of (with_leading_lines_changed ls st) = Some ls"
proof (cases st)
  case (For_stmt n) then show ?thesis by (cases n) simp
next
  case (With_stmt n) then show ?thesis by (cases n) simp
next
  case (FunctionDef_stmt n) then show ?thesis by (cases n) simp
qed simp_all

lemma leading_lines_of_not_None [simp]: "leading_lines_of st \<noteq> None"
  by (cases st) simp_all

lemma is_type_comment_examples:
  "is_type_comment (Some (Comment ''# type: () -> str''))"
  "is_type_comment (Some (Comment ''# type: int''))"
  "\<not> is_type_comment (Some (Comment ''# type: ignore''))"
  by code_simp+

lemma convert_Assign_Failed_iff:
  "convert_Assign env assign ann = Inr FailedToApplyAnnotation
     \<longleftrightarrow> annotated_targets (assign_targets assign)
           (unpack_annotation (ast_unparse env) ann) = Inl ArityError"
  by (auto simp: convert_Assign_def split: sum.splits exn.splits list.splits prod.splits)

lemma leave_SimpleStatementLine_AnnAssign:
  assumes "ssl_body upd \<noteq> []" and "last (ssl_body upd) = Assign_stmt assign"
    and "annotation_for_statement env (SimpleStatementLine_stmt orig) = Inr (Some ann)"
    and "convert_Assign env assign ann = Inr (Converted_AnnAssign c)"
  shows "leave_SimpleStatementLine env orig upd =
           Inr (Node (upd\<lparr>ssl_body := butlast (ssl_body upd) @ [AnnAssign_stmt c],
                           ssl_trailing_whitespace :=
                             strip_TrailingWhitespace (ssl_trailing_whitespace upd)\<rparr>))"
  using assms by (simp add: leave_SimpleStatementLine_def)

lemma leave_SimpleStatementLine_list:
  assumes "ssl_body upd \<noteq> []" and "last (ssl_body upd) = Assign_stmt assign"
    and "annotation_for_statement env (SimpleStatementLine_stmt orig) = Inr (Some ann)"
    and "convert_Assign env assign ann = Inr (Converted_list cs)"
    and "2 \<le> length (butlast (ssl_body upd)) + length cs"
  shows "\<exists>lines.
           leave_SimpleStatementLine env orig upd
             = Inr (FlattenSentinel (map SimpleStatementLine_stmt lines))
           \<and> concat (map ssl_body lines)
               = map (with_semicolon MaybeSentinel_DEFAULT) (butlast (ssl_body upd)) @ cs
           \<and> (\<forall>l \<in> set lines. length (ssl_body l) = 1)
           \<and> ssl_leading_lines (hd lines) = ssl_leading_lines upd
           \<and> (\<forall>l \<in> set lines. tw_comment (ssl_trailing_whitespace l) = None)"
proof -
  let ?new = "map (with_semicolon MaybeSentinel_DEFAULT) (butlast (ssl_body upd)) @ cs"
  let ?first = "upd\<lparr>ssl_body := [hd ?new],
                     ssl_trailing_whitespace :=
                       strip_TrailingWhitespace (ssl_trailing_whitespace upd)\<rparr>"
  let ?rest = "map (\<lambda>statement. SimpleStatementLine_new [statement] []) (tl ?new)"
  have l2: "2 \<le> length ?new"
    using assms(5) by (simp only: length_append length_map)
  then have len: "\<not> length ?new < 2" by linarith
  have ne: "?new \<noteq> []"
  proof
    assume "?new = []"
    then have "length ?new = 0" by (simp only: list.size)
    with l2 show False by linarith
  qed
  have r: "leave_SimpleStatementLine env orig upd
             = Inr (FlattenSentinel (map SimpleStatementLine_stmt (?first # ?rest)))"
    using assms(1-4) len by (simp add: leave_SimpleStatementLine_def Let_def comp_def)
  have "concat (map ssl_body ?rest) = tl ?new"
    by (induction "tl ?new") (simp_all add: SimpleStatementLine_new_def comp_def)
  then have c: "concat (map ssl_body (?first # ?rest)) = ?new"
    using ne by simp
  have p: "\<forall>l \<in> set (?first # ?rest). length (ssl_body l) = 1"
    "\<forall>l \<in> set (?first # ?rest). tw_comment (ssl_trailing_whitespace l) = None"
    by (auto simp: SimpleStatementLine_new_def)
  have h: "ssl_leading_lines (hd (?first # ?rest)) = ssl_leading_lines upd"
    by simp
  from r c p h show ?thesis by blast
qed

lemma leave_SimpleStatementLine_not_applied:
  assumes "ssl_body upd \<noteq> []"
    and "(\<forall>a. last (ssl_body upd) \<noteq> Assign_stmt a)
         \<or> annotation_for_statement env (SimpleStatementLine_stmt orig) = Inr None
         \<or> (\<exists>assign ann. last (ssl_body upd) = Assign_stmt assign
               \<and> annotation_for_statement env (SimpleStatementLine_stmt orig) = Inr (Some ann)
               \<and> convert_Assign env assign ann = Inr FailedToApplyAnnotation)"
  shows "leave_SimpleStatementLine env orig upd = Inr (Node upd)"
  using assms
  by (auto simp: leave_SimpleStatementLine_def split: BaseSmallStatement.splits)


lemma type_declaration_statements_match:
  assumes "all_targets bs" and "shapes_match bs as"
  shows "\<exists>decls. type_declaration_statements env bs as ls = Inr decls
           \<and> map ssl_body decls
               = map (\<lambda>(b, r). [AnnAssign_stmt (type_declaration env b r)]) (zipped bs as)
           \<and> (\<forall>d \<in> set decls. tw_comment (ssl_trailing_whitespace d) = None)"
proof -
  have a: "annotated_bindings bs as = Inr (zipped bs as)"
    using assms by (simp add: annotated_bindings_well_formed(1))
  then obtain decls where d: "type_declaration_statements env bs as ls = Inr decls"
    by (simp add: type_declaration_statements_def)
  from type_declaration_statements_lines [OF d] a d show ?thesis by auto
qed

lemma leave_For_applied:
  assumes "for_body upd = IndentedBlock_suite body"
    and "annotation_for_statement env (For_stmt orig) = Inr (Some ann)"
    and "all_targets (unpack_target (for_target upd))"
    and "shapes_match (unpack_target (for_target upd)) (unpack_annotation (ast_unparse env) ann)"
  shows "\<exists>decls.
           leave_For env orig upd
             = Inr (FlattenSentinel
                 (map SimpleStatementLine_stmt decls
                  @ [For_stmt (For (for_target upd) (for_iter upd) (strip_header body) [])]))
           \<and> map ssl_body decls
               = map (\<lambda>(b, r). [AnnAssign_stmt (type_declaration env b r)])
                   (zipped (unpack_target (for_target upd))
                      (unpack_annotation (ast_unparse env) ann))
           \<and> (\<forall>d \<in> set decls. tw_comment (ssl_trailing_whitespace d) = None)"
proof -
  from type_declaration_statements_match [OF assms(3,4), of env "for_leading_lines upd"]
  obtain decls where d:
    "type_declaration_statements env (unpack_target (for_target upd))
       (unpack_annotation (ast_unparse env) ann) (for_leading_lines upd) = Inr decls"
    "map ssl_body decls
       = map (\<lambda>(b, r). [AnnAssign_stmt (type_declaration env b r)])
           (zipped (unpack_target (for_target upd)) (unpack_annotation (ast_unparse env) ann))"
    "\<forall>d \<in> set decls. tw_comment (ssl_trailing_whitespace d) = None"
    by blast
  have "leave_For env orig upd
          = Inr (FlattenSentinel
              (map SimpleStatementLine_stmt decls
               @ [For_stmt (For (for_target upd) (for_iter upd) (strip_header body) [])]))"
    using assms(1,2) d(1) by (simp add: leave_For_def)
  with d(2,3) show ?thesis by blast
qed

lemma leave_With_applied:
  assumes "with_body upd = IndentedBlock_suite body"
    and "annotation_for_statement env (With_stmt orig) = Inr (Some ann)"
    and "with_targets (with_items upd) = [t]"
    and "all_targets (unpack_target t)"
    and "shapes_match (unpack_target t) (unpack_annotation (ast_unparse env) ann)"
  shows "\<exists>decls.
           leave_With env orig upd
             = Inr (FlattenSentinel
                 (map SimpleStatementLine_stmt decls
                  @ [With_stmt (With (with_items upd) (strip_header body) [])]))
           \<and> map ssl_body decls
               = map (\<lambda>(b, r). [AnnAssign_stmt (type_declaration env b r)])
                   (zipped (unpack_target t) (unpack_annotation (ast_unparse env) ann))
           \<and> (\<forall>d \<in> set decls. tw_comment (ssl_trailing_whitespace d) = None)"
proof -
  from type_declaration_statements_match [OF assms(4,5), of env "with_leading_lines upd"]
  obtain decls where d:
    "type_declaration_statements env (unpack_target t)
       (unpack_annotation (ast_unparse env) ann) (with_leading_lines upd) = Inr decls"
    "map ssl_body decls
       = map (\<lambda>(b, r). [AnnAssign_stmt (type_declaration env b r)])
           (zipped (unpack_target t) (unpack_annotation (ast_unparse env) ann))"
    "\<forall>d \<in> set decls. tw_comment (ssl_trailing_whitespace d) = None"
    by blast
  have "leave_With env orig upd
          = Inr (FlattenSentinel
              (map SimpleStatementLine_stmt decls
               @ [With_stmt (With (with_items upd) (strip_header body) [])]))"
    using assms(1-3) d(1) by (simp add: leave_With_def)
  with d(2,3) show ?thesis by blast
qed

lemma strip_header_comment:
  "strip_header body = IndentedBlock_suite (IndentedBlock h bs) \<Longrightarrow>
     tw_comment h = None \<and> bs = ib_body body"
  by (auto simp: strip_header_def)

lemma leave_For_not_applied:
  assumes "(\<forall>b. for_body upd \<noteq> IndentedBlock_suite b)
           \<or> annotation_for_statement env (For_stmt orig) = Inr None"
  shows "leave_For env orig upd = Inr (Node upd)"
  using assms by (auto simp: leave_For_def split: BaseSuite.splits)

lemma leave_With_not_applied:
  assumes "(\<forall>b. with_body upd \<noteq> IndentedBlock_suite b)
           \<or> annotation_for_statement env (With_stmt orig) = Inr None
           \<or> (\<exists>a. annotation_for_statement env (With_stmt orig) = Inr a)
               \<and> length (with_targets (with_items upd)) \<noteq> 1"
  shows "leave_With env orig upd = Inr (Node upd)"
  using assms by (auto simp: leave_With_def split: BaseSuite.splits option.splits)

lemma leave_TrailingWhitespace_exact:
  "aggressively_strip_type_comments s \<and> is_type_comment (tw_comment ut) \<Longrightarrow>
     leave_TrailingWhitespace s ot ut = Node TrailingWhitespace_default"
  "\<not> (aggressively_strip_type_comments s \<and> is_type_comment (tw_comment ut)) \<Longrightarrow>
     leave_TrailingWhitespace s ot ut = Node ut"
  by (auto simp: leave_TrailingWhitespace_def)

lemma leave_EmptyLine_exact:
  "aggressively_strip_type_comments s \<and> is_type_comment (el_comment ue) \<Longrightarrow>
     leave_EmptyLine s oe ue = RemovalSentinel_REMOVE"
  "\<not> (aggressively_strip_type_comments s \<and> is_type_comment (el_comment ue)) \<Longrightarrow>
     leave_EmptyLine s oe ue = Node ue"
  by (auto simp: leave_EmptyLine_def)

lemma leave_IndentedBlock_exact:
  assumes "function_body_stack s \<noteq> []"
    and "last (function_body_stack s) = IndentedBlock_suite ob"
    and "function_type_info_stack s \<noteq> []"
    and "\<not> is_empty (last (function_type_info_stack s))"
    and "ib_body ub = first # rest"
    and "leading_lines_of first = Some ls"
  shows "leave_IndentedBlock s ob ub =
           Inr (IndentedBlock
                  (if is_type_comment (tw_comment (ib_header ub))
                   then TrailingWhitespace_default else ib_header ub)
                  (with_leading_lines_changed
                     (filter (\<lambda>line. \<not> is_type_comment (el_comment line)) ls) first
                   # rest))"
  using assms by (cases ub) (simp add: leave_IndentedBlock_def)

lemma leave_IndentedBlock_other_block:
  assumes "function_body_stack s = [] \<or> last (function_body_stack s) \<noteq> IndentedBlock_suite ob"
  shows "leave_IndentedBlock s ob ub = Inr ub"
  using assms by (auto simp: leave_IndentedBlock_def)

lemma applied_needs_information:
  "leave_Param env s op up = Inr p \<Longrightarrow> p \<noteq> up \<Longrightarrow>
     \<not> is_empty (last (function_type_info_stack s))"
  "leave_FunctionDef env s orig upd = Inr (f, s') \<Longrightarrow> f \<noteq> upd \<Longrightarrow>
     \<not> is_empty (last (function_type_info_stack s))"
  by (auto simp: leave_Param_def leave_FunctionDef_def is_empty_def Let_def
      split: if_splits option.splits)

lemma is_type_comment_note: "\<not> is_type_comment (Some (Comment ''# a note''))"
  by code_simp

text \<open>
  Claim C4 says that a type comment that was not applied is kept. At
  \<^verbatim>\<open>def f() -> int:  # type: () -> str\<close> the return annotation is already there, so
  \<^verbatim>\<open>leave_FunctionDef\<close> applies nothing of the comment; the type information is not
  empty all the same, and \<^verbatim>\<open>leave_IndentedBlock\<close> removes the comment from the header
  of the body.
\<close>

theorem unapplied_function_comment_is_stripped:
  "visit_FunctionDef annotated_env init
       (annotated_function (commented_block ''# type: () -> str''))
     = Inr (in_function \<lparr>arguments = [], returns = Some ''str''\<rparr>
              (commented_block ''# type: () -> str'') True)
   \<and> visit_FunctionDef_body
         (in_function \<lparr>arguments = [], returns = Some ''str''\<rparr>
            (commented_block ''# type: () -> str'') True)
         (annotated_function (commented_block ''# type: () -> str''))
     = in_function \<lparr>arguments = [], returns = Some ''str''\<rparr>
         (commented_block ''# type: () -> str'') False
   \<and> leave_IndentedBlock
         (in_function \<lparr>arguments = [], returns = Some ''str''\<rparr>
            (commented_block ''# type: () -> str'') False)
         (commented_block ''# type: () -> str'') (commented_block ''# type: () -> str'')
     = Inr stripped_block
   \<and> leave_FunctionDef annotated_env
         (in_function \<lparr>arguments = [], returns = Some ''str''\<rparr>
            (commented_block ''# type: () -> str'') False)
         (annotated_function (commented_block ''# type: () -> str''))
         (annotated_function stripped_block)
     = Inr (annotated_function stripped_block, init)
   \<and> tw_comment (ib_header (commented_block ''# type: () -> str''))
     = Some (Comment ''# type: () -> str'')
   \<and> tw_comment (ib_header stripped_block) = None
   \<and> fd_returns (annotated_function stripped_block) = Some (Annotation (Name ''int''))"
proof -
  let ?b = "commented_block ''# type: () -> str''"
  let ?i = "\<lparr>arguments = [], returns = Some ''str''\<rparr>"
  have f: "from_cst annotated_env (annotated_function ?b) = Inr ?i"
    by (simp add: from_cst_def ast_for_statement_def annotated_env_def example_env_def
        commented_def returns_to_str_def parse_func_type_comment_def function_args_def
        no_arguments_def dict_of_def)
  have v: "visit_FunctionDef annotated_env init (annotated_function ?b)
             = Inr (in_function ?i ?b True)"
    using visit_FunctionDef_from_cst [OF f, of init]
    by (simp add: is_empty_def init_def in_function_def annotated_function_def)
  have b: "visit_FunctionDef_body (in_function ?i ?b True) (annotated_function ?b)
             = in_function ?i ?b False"
    by (simp add: visit_FunctionDef_body_def in_function_def)
  have h: "tw_comment (ib_header ?b) = Some (Comment ''# type: () -> str'')"
    by (simp add: commented_block_def trailing_comment_def)
  have l: "leave_IndentedBlock (in_function ?i ?b False) ?b ?b = Inr stripped_block"
    by (simp add: leave_IndentedBlock_def in_function_def is_empty_def h
        is_type_comment_examples)
      (simp add: commented_block_def stripped_block_def pass_line_def
        SimpleStatementLine_new_def)
  have d: "leave_FunctionDef annotated_env (in_function ?i ?b False)
             (annotated_function ?b) (annotated_function stripped_block)
           = Inr (annotated_function stripped_block, init)"
    by (simp add: leave_FunctionDef_def in_function_def annotated_function_def init_def)
  show ?thesis
    by (simp add: v b l d h) (simp add: stripped_block_def annotated_function_def)
qed

text \<open>
  Claim C4 as amended. For an assignment line, a loop and a context manager the claim
  holds as stated. When the rewrite is applied, the hook returns the rewritten
  statements, and no comment is left on any of them: the line whose last statement is
  replaced by the annotated assignment, or one line per statement, the type declarations
  followed by the assignment; the type declarations followed by the loop or the context
  manager, the header of its body stripped. When it is not applied (no assignment, no
  type comment that decodes, a shape mismatch, not exactly one binding of a context
  manager, a body that is no indented block), the hook returns the node it was given,
  comment included. For a function definition, stripping follows the extraction of type
  information, not its application: \<^verbatim>\<open>visit_FunctionDef\<close> switches stripping on exactly
  when the \<^verbatim>\<open>FunctionTypeInfo\<close> is not empty and \<^verbatim>\<open>visit_FunctionDef_body\<close> switches it
  off; while it is on, a type comment of a trailing whitespace or of an empty line is
  removed and every other comment is kept, and while it is off all are kept; the body of
  a function with non-empty information loses exactly the type comment of its header
  and the type-comment lines before its first statement; the body of a function with
  empty information, and every other block, is returned as it is. Whenever
  \<^verbatim>\<open>leave_Param\<close> or \<^verbatim>\<open>leave_FunctionDef\<close> applies an annotation, the information is
  not empty, so an applied comment is always stripped, while a comment that is extracted
  and not applied is stripped too.
\<close>

theorem stripped_when_applied_or_extracted:
  "(ssl_body upd \<noteq> [] \<and> last (ssl_body upd) = Assign_stmt assign
      \<and> annotation_for_statement env (SimpleStatementLine_stmt orig) = Inr (Some ann)
      \<and> convert_Assign env assign ann = Inr (Converted_AnnAssign c)
    \<longrightarrow> leave_SimpleStatementLine env orig upd =
          Inr (Node (upd\<lparr>ssl_body := butlast (ssl_body upd) @ [AnnAssign_stmt c],
                          ssl_trailing_whitespace :=
                            strip_TrailingWhitespace (ssl_trailing_whitespace upd)\<rparr>)))
   \<and> (ssl_body upd \<noteq> [] \<and> last (ssl_body upd) = Assign_stmt assign
      \<and> annotation_for_statement env (SimpleStatementLine_stmt orig) = Inr (Some ann)
      \<and> convert_Assign env assign ann = Inr (Converted_list cs)
      \<and> 2 \<le> length (butlast (ssl_body upd)) + length cs
    \<longrightarrow> (\<exists>lines.
          leave_SimpleStatementLine env orig upd
            = Inr (FlattenSentinel (map SimpleStatementLine_stmt lines))
          \<and> concat (map ssl_body lines)
              = map (with_semicolon MaybeSentinel_DEFAULT) (butlast (ssl_body upd)) @ cs
          \<and> (\<forall>l \<in> set lines. length (ssl_body l) = 1)
          \<and> ssl_leading_lines (hd lines) = ssl_leading_lines upd
          \<and> (\<forall>l \<in> set lines. tw_comment (ssl_trailing_whitespace l) = None)))
   \<and> (ssl_body upd \<noteq> []
      \<and> ((\<forall>a. last (ssl_body upd) \<noteq> Assign_stmt a)
         \<or> annotation_for_statement env (SimpleStatementLine_stmt orig) = Inr None
         \<or> (\<exists>assign ann. last (ssl_body upd) = Assign_stmt assign
               \<and> annotation_for_statement env (SimpleStatementLine_stmt orig) = Inr (Some ann)
               \<and> convert_Assign env assign ann = Inr FailedToApplyAnnotation))
    \<longrightarrow> leave_SimpleStatementLine env orig upd = Inr (Node upd))
   \<and> ((convert_Assign env assign ann = Inr FailedToApplyAnnotation)
      = (annotated_targets (assign_targets assign)
           (unpack_annotation (ast_unparse env) ann) = Inl ArityError))
   \<and> (tw_comment (strip_TrailingWhitespace w) = None)
   \<and> (for_body updf = IndentedBlock_suite bodyf
      \<and> annotation_for_statement env (For_stmt origf) = Inr (Some annf)
      \<and> all_targets (unpack_target (for_target updf))
      \<and> shapes_match (unpack_target (for_target updf))
            (unpack_annotation (ast_unparse env) annf)
    \<longrightarrow> (\<exists>decls.
          leave_For env origf updf
            = Inr (FlattenSentinel
                (map SimpleStatementLine_stmt decls
                 @ [For_stmt (For (for_target updf) (for_iter updf) (strip_header bodyf) [])]))
          \<and> map ssl_body decls
              = map (\<lambda>(b, r). [AnnAssign_stmt (type_declaration env b r)])
                  (zipped (unpack_target (for_target updf))
                     (unpack_annotation (ast_unparse env) annf))
          \<and> (\<forall>d \<in> set decls. tw_comment (ssl_trailing_whitespace d) = None)))
   \<and> (for_body updf = IndentedBlock_suite bodyf
      \<and> annotation_for_statement env (For_stmt origf) = Inr (Some annf)
      \<and> all_targets (unpack_target (for_target updf))
      \<and> \<not> shapes_match (unpack_target (for_target updf))
            (unpack_annotation (ast_unparse env) annf)
    \<longrightarrow> leave_For env origf updf = Inr (Node updf))
   \<and> ((\<forall>b. for_body updf \<noteq> IndentedBlock_suite b)
      \<or> annotation_for_statement env (For_stmt origf) = Inr None
    \<longrightarrow> leave_For env origf updf = Inr (Node updf))
   \<and> (with_body updw = IndentedBlock_suite bodyw
      \<and> annotation_for_statement env (With_stmt origw) = Inr (Some annw)
      \<and> with_targets (with_items updw) = [t]
      \<and> all_targets (unpack_target t)
      \<and> shapes_match (unpack_target t) (unpack_annotation (ast_unparse env) annw)
    \<longrightarrow> (\<exists>decls.
          leave_With env origw updw
            = Inr (FlattenSentinel
                (map SimpleStatementLine_stmt decls
                 @ [With_stmt (With (with_items updw) (strip_header bodyw) [])]))
          \<and> map ssl_body decls
              = map (\<lambda>(b, r). [AnnAssign_stmt (type_declaration env b r)])
                  (zipped (unpack_target t) (unpack_annotation (ast_unparse env) annw))
          \<and> (\<forall>d \<in> set decls. tw_comment (ssl_trailing_whitespace d) = None)))
   \<and> (with_body updw = IndentedBlock_suite bodyw
      \<and> annotation_for_statement env (With_stmt origw) = Inr (Some annw)
      \<and> with_targets (with_items updw) = [t]
      \<and> all_targets (unpack_target t)
      \<and> \<not> shapes_match (unpack_target t) (unpack_annotation (ast_unparse env) annw)
    \<longrightarrow> leave_With env origw updw = Inr (Node updw))
   \<and> ((\<forall>b. with_body updw \<noteq> IndentedBlock_suite b)
      \<or> annotation_for_statement env (With_stmt origw) = Inr None
      \<or> (\<exists>a. annotation_for_statement env (With_stmt origw) = Inr a)
          \<and> length (with_targets (with_items updw)) \<noteq> 1
    \<longrightarrow> leave_With env origw updw = Inr (Node updw))
   \<and> (strip_header body = IndentedBlock_suite (IndentedBlock h bs)
    \<longrightarrow> tw_comment h = None \<and> bs = ib_body body)
   \<and> (from_cst env f = Inr info
    \<longrightarrow> visit_FunctionDef env self f =
          Inr \<lparr>function_type_info_stack = function_type_info_stack self @ [info],
               function_body_stack = function_body_stack self @ [fd_body f],
               aggressively_strip_type_comments = (\<not> is_empty info)\<rparr>)
   \<and> (visit_FunctionDef_body s f = s\<lparr>aggressively_strip_type_comments := False\<rparr>)
   \<and> (aggressively_strip_type_comments s \<and> is_type_comment (tw_comment ut)
    \<longrightarrow> leave_TrailingWhitespace s ot ut = Node TrailingWhitespace_default)
   \<and> (\<not> (aggressively_strip_type_comments s \<and> is_type_comment (tw_comment ut))
    \<longrightarrow> leave_TrailingWhitespace s ot ut = Node ut)
   \<and> (tw_comment TrailingWhitespace_default = None)
   \<and> (aggressively_strip_type_comments s \<and> is_type_comment (el_comment ue)
    \<longrightarrow> leave_EmptyLine s oe ue = RemovalSentinel_REMOVE)
   \<and> (\<not> (aggressively_strip_type_comments s \<and> is_type_comment (el_comment ue))
    \<longrightarrow> leave_EmptyLine s oe ue = Node ue)
   \<and> (function_body_stack s \<noteq> []
      \<and> last (function_body_stack s) = IndentedBlock_suite ob
      \<and> function_type_info_stack s \<noteq> []
      \<and> \<not> is_empty (last (function_type_info_stack s))
      \<and> ib_body ub = first # rest
      \<and> leading_lines_of first = Some ls
    \<longrightarrow> leave_IndentedBlock s ob ub =
          Inr (IndentedBlock
                 (if is_type_comment (tw_comment (ib_header ub))
                  then TrailingWhitespace_default else ib_header ub)
                 (with_leading_lines_changed
                    (filter (\<lambda>line. \<not> is_type_comment (el_comment line)) ls) first
                  # rest)))
   \<and> (function_type_info_stack s \<noteq> [] \<and> is_empty (last (function_type_info_stack s))
    \<longrightarrow> leave_IndentedBlock s ob ub = Inr ub)
   \<and> (function_body_stack s = [] \<or> last (function_body_stack s) \<noteq> IndentedBlock_suite ob
    \<longrightarrow> leave_IndentedBlock s ob ub = Inr ub)
   \<and> (leave_Param env s op up = Inr p \<and> p \<noteq> up
    \<longrightarrow> \<not> is_empty (last (function_type_info_stack s)))
   \<and> (leave_FunctionDef env s origd updd = Inr (f', s') \<and> f' \<noteq> updd
    \<longrightarrow> \<not> is_empty (last (function_type_info_stack s)))"
proof -
  have a1: "ssl_body upd \<noteq> [] \<and> last (ssl_body upd) = Assign_stmt assign
      \<and> annotation_for_statement env (SimpleStatementLine_stmt orig) = Inr (Some ann)
      \<and> convert_Assign env assign ann = Inr (Converted_AnnAssign c)
    \<longrightarrow> leave_SimpleStatementLine env orig upd =
          Inr (Node (upd\<lparr>ssl_body := butlast (ssl_body upd) @ [AnnAssign_stmt c],
                          ssl_trailing_whitespace :=
                            strip_TrailingWhitespace (ssl_trailing_whitespace upd)\<rparr>))"
    using leave_SimpleStatementLine_AnnAssign [of upd assign env orig ann c] by blast
  have a2: "ssl_body upd \<noteq> [] \<and> last (ssl_body upd) = Assign_stmt assign
      \<and> annotation_for_statement env (SimpleStatementLine_stmt orig) = Inr (Some ann)
      \<and> convert_Assign env assign ann = Inr (Converted_list cs)
      \<and> 2 \<le> length (butlast (ssl_body upd)) + length cs
    \<longrightarrow> (\<exists>lines.
          leave_SimpleStatementLine env orig upd
            = Inr (FlattenSentinel (map SimpleStatementLine_stmt lines))
          \<and> concat (map ssl_body lines)
              = map (with_semicolon MaybeSentinel_DEFAULT) (butlast (ssl_body upd)) @ cs
          \<and> (\<forall>l \<in> set lines. length (ssl_body l) = 1)
          \<and> ssl_leading_lines (hd lines) = ssl_leading_lines upd
          \<and> (\<forall>l \<in> set lines. tw_comment (ssl_trailing_whitespace l) = None))"
    using leave_SimpleStatementLine_list [of upd assign env orig ann cs] by blast
  have a3: "ssl_body upd \<noteq> []
      \<and> ((\<forall>a. last (ssl_body upd) \<noteq> Assign_stmt a)
         \<or> annotation_for_statement env (SimpleStatementLine_stmt orig) = Inr None
         \<or> (\<exists>assign ann. last (ssl_body upd) = Assign_stmt assign
               \<and> annotation_for_statement env (SimpleStatementLine_stmt orig) = Inr (Some ann)
               \<and> convert_Assign env assign ann = Inr FailedToApplyAnnotation))
    \<longrightarrow> leave_SimpleStatementLine env orig upd = Inr (Node upd)"
    using leave_SimpleStatementLine_not_applied [of upd env orig] by blast
  have a4: "(convert_Assign env assign ann = Inr FailedToApplyAnnotation)
      = (annotated_targets (assign_targets assign)
           (unpack_annotation (ast_unparse env) ann) = Inl ArityError)"
    by (rule convert_Assign_Failed_iff)
  have a5: "tw_comment (strip_TrailingWhitespace w) = None"
    by simp
  have f1: "for_body updf = IndentedBlock_suite bodyf
      \<and> annotation_for_statement env (For_stmt origf) = Inr (Some annf)
      \<and> all_targets (unpack_target (for_target updf))
      \<and> shapes_match (unpack_target (for_target updf))
            (unpack_annotation (ast_unparse env) annf)
    \<longrightarrow> (\<exists>decls.
          leave_For env origf updf
            = Inr (FlattenSentinel
                (map SimpleStatementLine_stmt decls
                 @ [For_stmt (For (for_target updf) (for_iter updf) (strip_header bodyf) [])]))
          \<and> map ssl_body decls
              = map (\<lambda>(b, r). [AnnAssign_stmt (type_declaration env b r)])
                  (zipped (unpack_target (for_target updf))
                     (unpack_annotation (ast_unparse env) annf))
          \<and> (\<forall>d \<in> set decls. tw_comment (ssl_trailing_whitespace d) = None))"
    using leave_For_applied [of updf bodyf env origf annf] by blast
  have f2: "for_body updf = IndentedBlock_suite bodyf
      \<and> annotation_for_statement env (For_stmt origf) = Inr (Some annf)
      \<and> all_targets (unpack_target (for_target updf))
      \<and> \<not> shapes_match (unpack_target (for_target updf))
            (unpack_annotation (ast_unparse env) annf)
    \<longrightarrow> leave_For env origf updf = Inr (Node updf)"
    using leave_For_mismatch [of updf bodyf env origf annf] by blast
  have f3: "(\<forall>b. for_body updf \<noteq> IndentedBlock_suite b)
      \<or> annotation_for_statement env (For_stmt origf) = Inr None
    \<longrightarrow> leave_For env origf updf = Inr (Node updf)"
    using leave_For_not_applied [of updf env origf] by blast
  have w1: "with_body updw = IndentedBlock_suite bodyw
      \<and> annotation_for_statement env (With_stmt origw) = Inr (Some annw)
      \<and> with_targets (with_items updw) = [t]
      \<and> all_targets (unpack_target t)
      \<and> shapes_match (unpack_target t) (unpack_annotation (ast_unparse env) annw)
    \<longrightarrow> (\<exists>decls.
          leave_With env origw updw
            = Inr (FlattenSentinel
                (map SimpleStatementLine_stmt decls
                 @ [With_stmt (With (with_items updw) (strip_header bodyw) [])]))
          \<and> map ssl_body decls
              = map (\<lambda>(b, r). [AnnAssign_stmt (type_declaration env b r)])
                  (zipped (unpack_target t) (unpack_annotation (ast_unparse env) annw))
          \<and> (\<forall>d \<in> set decls. tw_comment (ssl_trailing_whitespace d) = None))"
    using leave_With_applied [of updw bodyw env origw annw t] by blast
  have w2: "with_body updw = IndentedBlock_suite bodyw
      \<and> annotation_for_statement env (With_stmt origw) = Inr (Some annw)
      \<and> with_targets (with_items updw) = [t]
      \<and> all_targets (unpack_target t)
      \<and> \<not> shapes_match (unpack_target t) (unpack_annotation (ast_unparse env) annw)
    \<longrightarrow> leave_With env origw updw = Inr (Node updw)"
    using leave_With_mismatch [of updw bodyw env origw annw t] by blast
  have w3: "(\<forall>b. with_body updw \<noteq> IndentedBlock_suite b)
      \<or> annotation_for_statement env (With_stmt origw) = Inr None
      \<or> (\<exists>a. annotation_for_statement env (With_stmt origw) = Inr a)
          \<and> length (with_targets (with_items updw)) \<noteq> 1
    \<longrightarrow> leave_With env origw updw = Inr (Node updw)"
    using leave_With_not_applied [of updw env origw] by blast
  have h1: "strip_header body = IndentedBlock_suite (IndentedBlock h bs)
    \<longrightarrow> tw_comment h = None \<and> bs = ib_body body"
    using strip_header_comment [of body h bs] by blast
  have v1: "from_cst env f = Inr info
    \<longrightarrow> visit_FunctionDef env self f =
          Inr \<lparr>function_type_info_stack = function_type_info_stack self @ [info],
               function_body_stack = function_body_stack self @ [fd_body f],
               aggressively_strip_type_comments = (\<not> is_empty info)\<rparr>"
    by (intro impI) (rule visit_FunctionDef_from_cst)
  have v2: "visit_FunctionDef_body s f = s\<lparr>aggressively_strip_type_comments := False\<rparr>"
    by (simp add: visit_FunctionDef_body_def)
  have t1: "aggressively_strip_type_comments s \<and> is_type_comment (tw_comment ut)
    \<longrightarrow> leave_TrailingWhitespace s ot ut = Node TrailingWhitespace_default"
    by (intro impI) (rule leave_TrailingWhitespace_exact(1))
  have t2: "\<not> (aggressively_strip_type_comments s \<and> is_type_comment (tw_comment ut))
    \<longrightarrow> leave_TrailingWhitespace s ot ut = Node ut"
    by (intro impI) (rule leave_TrailingWhitespace_exact(2))
  have t3: "tw_comment TrailingWhitespace_default = None"
    by simp
  have e1: "aggressively_strip_type_comments s \<and> is_type_comment (el_comment ue)
    \<longrightarrow> leave_EmptyLine s oe ue = RemovalSentinel_REMOVE"
    by (intro impI) (rule leave_EmptyLine_exact(1))
  have e2: "\<not> (aggressively_strip_type_comments s \<and> is_type_comment (el_comment ue))
    \<longrightarrow> leave_EmptyLine s oe ue = Node ue"
    by (intro impI) (rule leave_EmptyLine_exact(2))
  have b1: "function_body_stack s \<noteq> []
      \<and> last (function_body_stack s) = IndentedBlock_suite ob
      \<and> function_type_info_stack s \<noteq> []
      \<and> \<not> is_empty (last (function_type_info_stack s))
      \<and> ib_body ub = first # rest
      \<and> leading_lines_of first = Some ls
    \<longrightarrow> leave_IndentedBlock s ob ub =
          Inr (IndentedBlock
                 (if is_type_comment (tw_comment (ib_header ub))
                  then TrailingWhitespace_default else ib_header ub)
                 (with_leading_lines_changed
                    (filter (\<lambda>line. \<not> is_type_comment (el_comment line)) ls) first
                  # rest))"
    using leave_IndentedBlock_exact [of s ob ub first rest ls] by blast
  have b2: "function_type_info_stack s \<noteq> [] \<and> is_empty (last (function_type_info_stack s))
    \<longrightarrow> leave_IndentedBlock s ob ub = Inr ub"
    using function_hooks_empty_info(2) [of s ob ub] by blast
  have b3: "function_body_stack s = [] \<or> last (function_body_stack s) \<noteq> IndentedBlock_suite ob
    \<longrightarrow> leave_IndentedBlock s ob ub = Inr ub"
    using leave_IndentedBlock_other_block [of s ob ub] by blast
  have p1: "leave_Param env s op up = Inr p \<and> p \<noteq> up
    \<longrightarrow> \<not> is_empty (last (function_type_info_stack s))"
    using applied_needs_information(1) [of env s op up p] by blast
  have p2: "leave_FunctionDef env s origd updd = Inr (f', s') \<and> f' \<noteq> updd
    \<longrightarrow> \<not> is_empty (last (function_type_info_stack s))"
    using applied_needs_information(2) [of env s origd updd f' s'] by blast
  from a1 a2 a3 a4 a5 f1 f2 f3 w1 w2 w3 h1 v1 v2 t1 t2 t3 e1 e2 b1 b2 b3 p1 p2 show ?thesis by (intro conjI)
qed

text \<open>
  The amended claim at \<^verbatim>\<open>x = 1  # type: int\<close> and \<^verbatim>\<open>x = y = 1, 2  # type: int\<close>, at
  \<^verbatim>\<open>y, z = x = 1, 2  # type: int, int\<close>, at loops and context managers whose comment
  matches, does not match and does not decode, and at the hooks of
  \<^verbatim>\<open>def f() -> int:  # type: () -> str\<close>, of a function whose type information is empty
  and of a function whose information is applied.
\<close>

theorem stripped_when_applied_or_extracted_witness:
  "leave_SimpleStatementLine int_env (name_line ''# type: int'') (name_line ''# type: int'')
     = Inr (Node ((name_line ''# type: int'')
         \<lparr>ssl_body := butlast (ssl_body (name_line ''# type: int''))
            @ [AnnAssign_stmt
                 (AnnAssign (Name ''x'') (Annotation (Name ''int'')) (Some (Integer ''1''))
                    MaybeSentinel_DEFAULT)],
          ssl_trailing_whitespace :=
            strip_TrailingWhitespace (ssl_trailing_whitespace (name_line ''# type: int''))\<rparr>))
   \<and> (\<exists>lines.
         leave_SimpleStatementLine int_env
           (line_of (Assign_stmt two_targets) ''# type: int'')
           (line_of (Assign_stmt two_targets) ''# type: int'')
           = Inr (FlattenSentinel (map SimpleStatementLine_stmt lines))
         \<and> concat (map ssl_body lines)
             = [AnnAssign_stmt (type_declaration int_env (Name ''x'') ''int''),
                AnnAssign_stmt (type_declaration int_env (Name ''y'') ''int''),
                Assign_stmt two_targets]
         \<and> list_all (\<lambda>l. tw_comment (ssl_trailing_whitespace l) = None) lines)
   \<and> leave_SimpleStatementLine pair_env
         (later_target_line ''# type: int, int'') (later_target_line ''# type: int, int'')
       = Inr (Node (later_target_line ''# type: int, int''))
   \<and> (\<exists>decls.
         leave_For int_env (one_name_for ''# type: int'') (one_name_for ''# type: int'')
           = Inr (FlattenSentinel
               (map SimpleStatementLine_stmt decls
                @ [For_stmt (For (Name ''x'') (Name ''z'') (IndentedBlock_suite stripped_block) [])]))
         \<and> map ssl_body decls = [[AnnAssign_stmt (type_declaration int_env (Name ''x'') ''int'')]]
         \<and> list_all (\<lambda>d. tw_comment (ssl_trailing_whitespace d) = None) decls)
   \<and> leave_For pair_env (nested_for ''# type: int, int'') (nested_for ''# type: int, int'')
       = Inr (Node (nested_for ''# type: int, int''))
   \<and> leave_For undecodable_env
         (one_name_for ''# type: List[int'') (one_name_for ''# type: List[int'')
       = Inr (Node (one_name_for ''# type: List[int''))
   \<and> (\<exists>decls.
         leave_With int_env (one_name_with ''# type: int'') (one_name_with ''# type: int'')
           = Inr (FlattenSentinel
               (map SimpleStatementLine_stmt decls
                @ [With_stmt (With [\<lparr>item = Name ''z'', asname = Some (AsName (Name ''x''))\<rparr>]
                                (IndentedBlock_suite stripped_block) [])]))
         \<and> map ssl_body decls = [[AnnAssign_stmt (type_declaration int_env (Name ''x'') ''int'')]]
         \<and> list_all (\<lambda>d. tw_comment (ssl_trailing_whitespace d) = None) decls)
   \<and> leave_With pair_env (nested_with ''# type: int, int'') (nested_with ''# type: int, int'')
       = Inr (Node (nested_with ''# type: int, int''))
   \<and> leave_With undecodable_env
         (one_name_with ''# type: List[int'') (one_name_with ''# type: List[int'')
       = Inr (Node (one_name_with ''# type: List[int''))
   \<and> tw_comment (ib_header stripped_block) = None
   \<and> visit_FunctionDef annotated_env init
         (annotated_function (commented_block ''# type: () -> str''))
     = Inr (in_function \<lparr>arguments = [], returns = Some ''str''\<rparr>
              (commented_block ''# type: () -> str'') True)
   \<and> leave_TrailingWhitespace
         (in_function \<lparr>arguments = [], returns = Some ''str''\<rparr>
            (commented_block ''# type: () -> str'') True)
         (trailing_comment ''# type: int'') (trailing_comment ''# type: int'')
     = Node TrailingWhitespace_default
   \<and> leave_TrailingWhitespace
         (in_function \<lparr>arguments = [], returns = Some ''str''\<rparr>
            (commented_block ''# type: () -> str'') True)
         (trailing_comment ''# a note'') (trailing_comment ''# a note'')
     = Node (trailing_comment ''# a note'')
   \<and> leave_EmptyLine
         (in_function \<lparr>arguments = [], returns = Some ''str''\<rparr>
            (commented_block ''# type: () -> str'') True)
         (comment_line ''# type: int'') (comment_line ''# type: int'')
     = RemovalSentinel_REMOVE
   \<and> leave_EmptyLine init (comment_line ''# type: int'') (comment_line ''# type: int'')
     = Node (comment_line ''# type: int'')
   \<and> leave_IndentedBlock
         (in_function \<lparr>arguments = [], returns = Some ''str''\<rparr>
            (commented_block ''# type: () -> str'') False)
         (commented_block ''# type: () -> str'') (commented_block ''# type: () -> str'')
     = Inr stripped_block
   \<and> leave_IndentedBlock
         (in_function \<lparr>arguments = [], returns = None\<rparr>
            (commented_block ''# type: List[int'') False)
         (commented_block ''# type: List[int'') (commented_block ''# type: List[int'')
     = Inr (commented_block ''# type: List[int'')
   \<and> leave_IndentedBlock init
         (commented_block ''# type: int'') (commented_block ''# type: int'')
     = Inr (commented_block ''# type: int'')
   \<and> leave_Param int_env typed_state (bare_param ''x'') (bare_param ''x'')
     = Inr ((bare_param ''x'')
             \<lparr>param_annotation :=
                Some (Annotation (SimpleString (CHR 0x22 # ''List[int]'' @ [CHR 0x22])))\<rparr>)
   \<and> leave_FunctionDef int_env typed_state (plain_function None []) (plain_function None [])
     = Inr (plain_function (Some (Annotation (Name ''int''))) [], init)
   \<and> \<not> is_empty (last (function_type_info_stack typed_state))
   \<and> \<not> is_empty \<lparr>arguments = [(''x'', Some ''List[int]'')], returns = Some ''int''\<rparr>"
proof -
  let ?c = "''# type: int''"
  let ?cc = "''# type: int, int''"
  let ?cu = "''# type: List[int''"
  let ?b = "commented_block ''# type: () -> str''"
  let ?i = "\<lparr>arguments = [], returns = Some ''str''\<rparr>"
  let ?u = "commented_block ?cu"
  let ?e = "\<lparr>arguments = [], returns = None\<rparr>"
  let ?int = "Annotation (Name ''int'')"
  let ?pair = "Tuple_ast [Name_ast ''int'', Name_ast ''int'']"
  let ?ps = "Annotations [Str ''int'', Str ''int'']"
  let ?two = "line_of (Assign_stmt two_targets) ?c"
  let ?x = "AnnAssign (Name ''x'') ?int (Some (Integer ''1'')) MaybeSentinel_DEFAULT"
  let ?cs = "[AnnAssign_stmt (type_declaration int_env (Name ''x'') ''int''),
              AnnAssign_stmt (type_declaration int_env (Name ''y'') ''int''),
              Assign_stmt two_targets]"
  have ai: "\<And>n. annotation_for_statement int_env n = Inr (Some (Name_ast ''int''))"
    by (simp add: int_env_def annotation_for_statement_example)
  have ap: "\<And>n. annotation_for_statement pair_env n = Inr (Some ?pair)"
    by (simp add: pair_env_def annotation_for_statement_example)
  have au: "\<And>n. annotation_for_statement undecodable_env n = Inr None"
    by (simp add: undecodable_env_def annotation_for_statement_example)
  have uu: "ast_unparse int_env (Name_ast ''int'') = ''int''"
    by (simp add: int_env_def example_env_def)
  have ui: "unpack_annotation (ast_unparse int_env) (Name_ast ''int'') = Str ''int''"
    by (simp add: uu)
  have upp: "ast_unparse pair_env (Name_ast ''int'') = ''int''"
    by (simp add: pair_env_def example_env_def)
  have up: "unpack_annotation (ast_unparse pair_env) ?pair = ?ps"
    by (simp add: upp)
  have ci: "convert_annotation int_env ''int'' = ?int"
    "convert_annotation int_env ''List[int]''
       = Annotation (SimpleString (CHR 0x22 # ''List[int]'' @ [CHR 0x22]))"
    by (simp_all add: convert_annotation_def is_builtin_def int_env_def example_env_def)
  have sh: "\<And>c. strip_header (commented_block c) = IndentedBlock_suite stripped_block"
    by (simp add: strip_header_def commented_block_def stripped_block_def
        strip_TrailingWhitespace_def trailing_comment_def TrailingWhitespace_default_def)
  \<comment> \<open>assignment lines\<close>
  have n: "ssl_body (name_line ?c) \<noteq> []" "last (ssl_body (name_line ?c)) = Assign_stmt name_assign"
    by (simp_all add: name_line_def line_of_def name_assign_def)
  have nc: "convert_Assign int_env name_assign (Name_ast ''int'') = Inr (Converted_AnnAssign ?x)"
    by (simp add: convert_Assign_def uu name_assign_def ci)
  have r1: "leave_SimpleStatementLine int_env (name_line ?c) (name_line ?c)
     = Inr (Node ((name_line ?c)
         \<lparr>ssl_body := butlast (ssl_body (name_line ?c)) @ [AnnAssign_stmt ?x],
          ssl_trailing_whitespace :=
            strip_TrailingWhitespace (ssl_trailing_whitespace (name_line ?c))\<rparr>))"
    using stripped_when_applied_or_extracted
      [where env = int_env and upd = "name_line ?c" and orig = "name_line ?c"
        and assign = name_assign and ann = "Name_ast ''int''" and c = ?x]
      n ai nc
    by simp
  have t: "ssl_body ?two \<noteq> []" "last (ssl_body ?two) = Assign_stmt two_targets"
    "butlast (ssl_body ?two) = []"
    by (simp_all add: line_of_def)
  have tc: "convert_Assign int_env two_targets (Name_ast ''int'') = Inr (Converted_list ?cs)"
    by (simp add: convert_Assign_def uu two_targets_def)
  have tl: "2 \<le> length (butlast (ssl_body ?two)) + length ?cs"
    by (simp add: t(3))
  have "\<exists>lines.
         leave_SimpleStatementLine int_env ?two ?two
           = Inr (FlattenSentinel (map SimpleStatementLine_stmt lines))
         \<and> concat (map ssl_body lines)
             = map (with_semicolon MaybeSentinel_DEFAULT) (butlast (ssl_body ?two)) @ ?cs
         \<and> (\<forall>l \<in> set lines. length (ssl_body l) = 1)
         \<and> ssl_leading_lines (hd lines) = ssl_leading_lines ?two
         \<and> (\<forall>l \<in> set lines. tw_comment (ssl_trailing_whitespace l) = None)"
    using stripped_when_applied_or_extracted
      [where env = int_env and upd = ?two and orig = ?two
        and assign = two_targets and ann = "Name_ast ''int''" and cs = ?cs]
      t(1,2) ai tc tl
    by simp
  then have r2: "\<exists>lines.
         leave_SimpleStatementLine int_env ?two ?two
           = Inr (FlattenSentinel (map SimpleStatementLine_stmt lines))
         \<and> concat (map ssl_body lines) = ?cs
         \<and> list_all (\<lambda>l. tw_comment (ssl_trailing_whitespace l) = None) lines"
    by (auto simp: t(3) list_all_iff)
  have l: "ssl_body (later_target_line ?cc) \<noteq> []"
    "last (ssl_body (later_target_line ?cc)) = Assign_stmt later_target"
    by (simp_all add: later_target_line_def line_of_def)
  have "annotated_targets (assign_targets later_target) ?ps = Inl ArityError"
    by (simp add: annotated_targets_well_formed later_target_def)
  then have lf: "convert_Assign pair_env later_target ?pair = Inr FailedToApplyAnnotation"
    using stripped_when_applied_or_extracted
      [where env = pair_env and assign = later_target and ann = ?pair,
        THEN conjunct2, THEN conjunct2, THEN conjunct2, THEN conjunct1]
    by (simp add: upp)
  have r3: "leave_SimpleStatementLine pair_env (later_target_line ?cc) (later_target_line ?cc)
       = Inr (Node (later_target_line ?cc))"
    using stripped_when_applied_or_extracted
      [where env = pair_env and upd = "later_target_line ?cc" and orig = "later_target_line ?cc"]
      l ap lf
    by simp
  \<comment> \<open>loops\<close>
  have f: "for_body (one_name_for ?c) = IndentedBlock_suite (commented_block ?c)"
    "for_target (one_name_for ?c) = Name ''x''" "for_iter (one_name_for ?c) = Name ''z''"
    by (simp_all add: one_name_for_def)
  have m: "all_targets (unpack_target (Name ''x''))"
    "shapes_match (unpack_target (Name ''x'')) (Str ''int'')"
    "zipped (unpack_target (Name ''x'')) (Str ''int'') = [(Name ''x'', ''int'')]"
    by simp_all
  have "\<exists>decls.
          leave_For int_env (one_name_for ?c) (one_name_for ?c)
            = Inr (FlattenSentinel
                (map SimpleStatementLine_stmt decls
                 @ [For_stmt (For (for_target (one_name_for ?c)) (for_iter (one_name_for ?c))
                                (strip_header (commented_block ?c)) [])]))
          \<and> map ssl_body decls
              = map (\<lambda>(b, r). [AnnAssign_stmt (type_declaration int_env b r)])
                  (zipped (unpack_target (for_target (one_name_for ?c)))
                     (unpack_annotation (ast_unparse int_env) (Name_ast ''int'')))
          \<and> (\<forall>d \<in> set decls. tw_comment (ssl_trailing_whitespace d) = None)"
    using stripped_when_applied_or_extracted
      [where env = int_env and updf = "one_name_for ?c" and origf = "one_name_for ?c"
        and bodyf = "commented_block ?c" and annf = "Name_ast ''int''"]
      f(1) ai m(1,2)
    by (simp add: f(2) uu)
  then have r4: "\<exists>decls.
         leave_For int_env (one_name_for ?c) (one_name_for ?c)
           = Inr (FlattenSentinel
               (map SimpleStatementLine_stmt decls
                @ [For_stmt (For (Name ''x'') (Name ''z'') (IndentedBlock_suite stripped_block) [])]))
         \<and> map ssl_body decls = [[AnnAssign_stmt (type_declaration int_env (Name ''x'') ''int'')]]
         \<and> list_all (\<lambda>d. tw_comment (ssl_trailing_whitespace d) = None) decls"
    by (simp add: f uu sh list_all_iff)
  have nf: "for_body (nested_for ?cc) = IndentedBlock_suite (commented_block ?cc)"
    "for_target (nested_for ?cc) = nested_target"
    by (simp_all add: nested_for_def)
  have nt: "all_targets (unpack_target nested_target)"
    "\<not> shapes_match (unpack_target nested_target) ?ps"
    by (simp_all add: nested_target_def)
  have r5: "leave_For pair_env (nested_for ?cc) (nested_for ?cc) = Inr (Node (nested_for ?cc))"
    using stripped_when_applied_or_extracted
      [where env = pair_env and updf = "nested_for ?cc" and origf = "nested_for ?cc"
        and bodyf = "commented_block ?cc" and annf = ?pair]
      nf(1) ap nt
    by (simp add: nf(2) upp)
  have r6: "leave_For undecodable_env (one_name_for ?cu) (one_name_for ?cu)
              = Inr (Node (one_name_for ?cu))"
    using stripped_when_applied_or_extracted
      [where env = undecodable_env and updf = "one_name_for ?cu" and origf = "one_name_for ?cu"]
      au
    by simp
  \<comment> \<open>context managers\<close>
  have w: "with_body (one_name_with ?c) = IndentedBlock_suite (commented_block ?c)"
    "with_targets (with_items (one_name_with ?c)) = [Name ''x'']"
    "with_items (one_name_with ?c) = [\<lparr>item = Name ''z'', asname = Some (AsName (Name ''x''))\<rparr>]"
    by (simp_all add: one_name_with_def)
  have "\<exists>decls.
          leave_With int_env (one_name_with ?c) (one_name_with ?c)
            = Inr (FlattenSentinel
                (map SimpleStatementLine_stmt decls
                 @ [With_stmt (With (with_items (one_name_with ?c))
                                 (strip_header (commented_block ?c)) [])]))
          \<and> map ssl_body decls
              = map (\<lambda>(b, r). [AnnAssign_stmt (type_declaration int_env b r)])
                  (zipped (unpack_target (Name ''x''))
                     (unpack_annotation (ast_unparse int_env) (Name_ast ''int'')))
          \<and> (\<forall>d \<in> set decls. tw_comment (ssl_trailing_whitespace d) = None)"
    using stripped_when_applied_or_extracted
      [where env = int_env and updw = "one_name_with ?c" and origw = "one_name_with ?c"
        and bodyw = "commented_block ?c" and annw = "Name_ast ''int''" and t = "Name ''x''"]
      w(1,2) ai m(1,2)
    by (simp add: uu)
  then have r7: "\<exists>decls.
         leave_With int_env (one_name_with ?c) (one_name_with ?c)
           = Inr (FlattenSentinel
               (map SimpleStatementLine_stmt decls
                @ [With_stmt (With [\<lparr>item = Name ''z'', asname = Some (AsName (Name ''x''))\<rparr>]
                                (IndentedBlock_suite stripped_block) [])]))
         \<and> map ssl_body decls = [[AnnAssign_stmt (type_declaration int_env (Name ''x'') ''int'')]]
         \<and> list_all (\<lambda>d. tw_comment (ssl_trailing_whitespace d) = None) decls"
    by (simp add: w uu sh list_all_iff)
  have nw: "with_body (nested_with ?cc) = IndentedBlock_suite (commented_block ?cc)"
    "with_targets (with_items (nested_with ?cc)) = [nested_target]"
    by (simp_all add: nested_with_def)
  have r8: "leave_With pair_env (nested_with ?cc) (nested_with ?cc) = Inr (Node (nested_with ?cc))"
    using stripped_when_applied_or_extracted
      [where env = pair_env and updw = "nested_with ?cc" and origw = "nested_with ?cc"
        and bodyw = "commented_block ?cc" and annw = ?pair and t = nested_target]
      nw ap nt
    by (simp add: upp)
  have r9: "leave_With undecodable_env (one_name_with ?cu) (one_name_with ?cu)
              = Inr (Node (one_name_with ?cu))"
    using stripped_when_applied_or_extracted
      [where env = undecodable_env and updw = "one_name_with ?cu" and origw = "one_name_with ?cu"]
      au
    by simp
  have r10: "tw_comment (ib_header stripped_block) = None"
    using stripped_when_applied_or_extracted
      [where body = "commented_block ?c" and h = "ib_header stripped_block"
        and bs = "ib_body stripped_block"]
      sh [of ?c]
    by (simp add: stripped_block_def)
  \<comment> \<open>function definitions\<close>
  have fc: "from_cst annotated_env (annotated_function ?b) = Inr ?i"
    by (simp add: from_cst_def ast_for_statement_def annotated_env_def example_env_def
        commented_def returns_to_str_def parse_func_type_comment_def function_args_def
        no_arguments_def dict_of_def)
  have r11: "visit_FunctionDef annotated_env init (annotated_function ?b)
             = Inr (in_function ?i ?b True)"
    using stripped_when_applied_or_extracted
      [where env = annotated_env and f = "annotated_function ?b" and info = ?i and self = init]
      fc
    by (simp add: is_empty_def init_def in_function_def annotated_function_def)
  have ag: "aggressively_strip_type_comments (in_function ?i ?b True)"
    "\<not> aggressively_strip_type_comments init"
    by (simp_all add: in_function_def init_def)
  have ty: "is_type_comment (tw_comment (trailing_comment ?c))"
    "is_type_comment (el_comment (comment_line ?c))"
    "\<not> is_type_comment (tw_comment (trailing_comment ''# a note''))"
    by (simp_all add: trailing_comment_def comment_line_def is_type_comment_examples
        is_type_comment_note)
  have r12: "leave_TrailingWhitespace (in_function ?i ?b True)
               (trailing_comment ?c) (trailing_comment ?c) = Node TrailingWhitespace_default"
    using stripped_when_applied_or_extracted
      [where s = "in_function ?i ?b True" and ut = "trailing_comment ?c"] ag(1) ty(1)
    by simp
  have r13: "leave_TrailingWhitespace (in_function ?i ?b True)
               (trailing_comment ''# a note'') (trailing_comment ''# a note'')
             = Node (trailing_comment ''# a note'')"
    using stripped_when_applied_or_extracted
      [where s = "in_function ?i ?b True" and ut = "trailing_comment ''# a note''"] ty(3)
    by simp
  have r14: "leave_EmptyLine (in_function ?i ?b True) (comment_line ?c) (comment_line ?c)
               = RemovalSentinel_REMOVE"
    using stripped_when_applied_or_extracted
      [where s = "in_function ?i ?b True" and ue = "comment_line ?c"] ag(1) ty(2)
    by simp
  have r15: "leave_EmptyLine init (comment_line ?c) (comment_line ?c) = Node (comment_line ?c)"
    using stripped_when_applied_or_extracted [where s = init and ue = "comment_line ?c"] ag(2)
    by simp
  have st: "function_body_stack (in_function ?i ?b False) \<noteq> []"
    "last (function_body_stack (in_function ?i ?b False)) = IndentedBlock_suite ?b"
    "function_type_info_stack (in_function ?i ?b False) \<noteq> []"
    "\<not> is_empty (last (function_type_info_stack (in_function ?i ?b False)))"
    "ib_body ?b = pass_line # []"
    "leading_lines_of pass_line = Some []"
    by (simp_all add: in_function_def is_empty_def commented_block_def pass_line_def
        SimpleStatementLine_new_def)
  have hb: "is_type_comment (tw_comment (ib_header ?b))"
    by (simp add: commented_block_def trailing_comment_def is_type_comment_examples)
  have pl: "with_leading_lines_changed [] pass_line = pass_line"
    by (simp add: pass_line_def SimpleStatementLine_new_def)
  have "leave_IndentedBlock (in_function ?i ?b False) ?b ?b =
          Inr (IndentedBlock
                 (if is_type_comment (tw_comment (ib_header ?b))
                  then TrailingWhitespace_default else ib_header ?b)
                 (with_leading_lines_changed
                    (filter (\<lambda>line. \<not> is_type_comment (el_comment line)) []) pass_line
                  # []))"
    using stripped_when_applied_or_extracted
      [where s = "in_function ?i ?b False" and ob = ?b and ub = ?b and first = pass_line
        and rest = "[]" and ls = "[]"]
      st
    by simp
  then have r16: "leave_IndentedBlock (in_function ?i ?b False) ?b ?b = Inr stripped_block"
    by (simp add: hb pl stripped_block_def)
  have se: "function_type_info_stack (in_function ?e ?u False) \<noteq> []"
    "is_empty (last (function_type_info_stack (in_function ?e ?u False)))"
    by (simp_all add: in_function_def is_empty_def)
  have r17: "leave_IndentedBlock (in_function ?e ?u False) ?u ?u = Inr ?u"
    using stripped_when_applied_or_extracted
      [where s = "in_function ?e ?u False" and ob = ?u and ub = ?u] se
    by simp
  have si: "function_body_stack init = []"
    by (simp add: init_def)
  have r18: "leave_IndentedBlock init (commented_block ?c) (commented_block ?c)
               = Inr (commented_block ?c)"
    using stripped_when_applied_or_extracted
      [where s = init and ob = "commented_block ?c" and ub = "commented_block ?c"] si
    by simp
  let ?p = "(bare_param ''x'')
             \<lparr>param_annotation :=
                Some (Annotation (SimpleString (CHR 0x22 # ''List[int]'' @ [CHR 0x22])))\<rparr>"
  have r19: "leave_Param int_env typed_state (bare_param ''x'') (bare_param ''x'') = Inr ?p"
    by (simp add: leave_Param_def typed_state_def bare_param_def ci)
  have r20: "leave_FunctionDef int_env typed_state (plain_function None []) (plain_function None [])
       = Inr (plain_function (Some ?int) [], init)"
    by (simp add: leave_FunctionDef_def typed_state_def plain_function_def init_def ci)
  have pn: "?p \<noteq> bare_param ''x''"
    by (simp add: bare_param_def)
  have r21: "\<not> is_empty (last (function_type_info_stack typed_state))"
    using stripped_when_applied_or_extracted
      [where env = int_env and s = typed_state and op = "bare_param ''x''"
        and up = "bare_param ''x''" and p = ?p]
      r19 pn
    by simp
  have fn: "plain_function (Some ?int) [] \<noteq> plain_function None []"
    by (simp add: plain_function_def)
  have r22: "\<not> is_empty \<lparr>arguments = [(''x'', Some ''List[int]'')], returns = Some ''int''\<rparr>"
    using stripped_when_applied_or_extracted
      [where env = int_env and s = typed_state and origd = "plain_function None []"
        and updd = "plain_function None []" and f' = "plain_function (Some ?int) []"
        and s' = init]
      r20 fn
    by (simp add: typed_state_def)
  from r1 r2 r3 r4 r5 r6 r7 r8 r9 r10 r11 r12 r13 r14 r15 r16 r17 r18 r19 r20 r21 r22
  show ?thesis by (intro conjI)
qed

end
